theory Spec2Isabelle
  imports Main
begin

section \<open>Business-day classification (jquants/endpoints/trading-calendar.ts)\<close>

text \<open>
  \<^verbatim>\<open>export function isBusinessDay(holDiv: string): boolean {
    return holDiv === '1' || holDiv === '2';
  }\<close>
\<close>

definition isBusinessDay :: "string \<Rightarrow> bool" where
  "isBusinessDay holDiv \<longleftrightarrow> holDiv = ''1'' \<or> holDiv = ''2''"

section \<open>Batch utilities (utils/batch.ts)\<close>

subsection \<open>Array.prototype.slice on integer arguments\<close>

text \<open>
  \<open>array.slice(start, end)\<close>: a negative index counts from the end, both indices are
  clamped to the array, and an empty range gives the empty array.
\<close>

definition slice :: "'a list \<Rightarrow> int \<Rightarrow> int \<Rightarrow> 'a list" where
  "slice array start end =
     (let len = int (length array);
          k = (if start < 0 then max (len + start) 0 else min start len);
          final = (if end < 0 then max (len + end) 0 else min end len)
      in take (nat (final - k)) (drop (nat k) array))"

subsection \<open>chunkArray\<close>

text \<open>
  \<^verbatim>\<open>export function chunkArray<T>(array: T[], size: number): T[][] {
    const chunks: T[][] = [];
    for (let i = 0; i < array.length; i += size) {
      chunks.push(array.slice(i, i + size));
    }
    return chunks;
  }\<close>
  The loop does not end when the size is \<open>\<le> 0\<close> and the array is not empty, so the loop is a
  partial function: \<open>None\<close> stands for a call that never returns. The size is an integer
  here (a fractional or NaN \<open>number\<close> is outside the model).
\<close>

partial_function (option) chunkArray_loop ::
  "'a list \<Rightarrow> int \<Rightarrow> int \<Rightarrow> 'a list list \<Rightarrow> 'a list list option" where
  "chunkArray_loop array sz i chunks =
     (if i < int (length array)
      then chunkArray_loop array sz (i + sz) (chunks @ [slice array i (i + sz)])
      else Some chunks)"

definition chunkArray :: "'a list \<Rightarrow> int \<Rightarrow> 'a list list option" where
  "chunkArray array sz = chunkArray_loop array sz 0 []"

subsection \<open>batchUpsert\<close>

text \<open>
  \<^verbatim>\<open>const BATCH_SIZES: Record<string, number> = {
    equity_bar_daily: 1000, equity_master_snapshot: 500, equity_master: 500,
    investor_type_trading: 2000, financial_disclosure: 500, earnings_calendar: 1000,
    trading_calendar: 2000, topix_bar_daily: 2000 };
  const DEFAULT_BATCH_SIZE = 500;\<close>
\<close>

definition BATCH_SIZES :: "(string \<times> int) list" where
  "BATCH_SIZES =
     [(''equity_bar_daily'', 1000),
      (''equity_master_snapshot'', 500),
      (''equity_master'', 500),
      (''investor_type_trading'', 2000),
      (''financial_disclosure'', 500),
      (''earnings_calendar'', 1000),
      (''trading_calendar'', 2000),
      (''topix_bar_daily'', 2000)]"

definition DEFAULT_BATCH_SIZE :: int where
  "DEFAULT_BATCH_SIZE = 500"

text \<open>\<open>onBatchComplete\<close> is a caller's function: it returns, or throws (\<open>Some\<close> message).\<close>

record BatchUpsertOptions =
  batchSize :: "int option"
  continueOnError :: "bool option"
  onBatchComplete :: "(nat \<Rightarrow> nat \<Rightarrow> nat \<Rightarrow> string option) option"

record BatchUpsertResult =
  inserted :: nat
  errors :: "string list"
  batchCount :: nat

text \<open>
  What \<open>await supabase.from(table).upsert(chunk, {onConflict, count: 'exact'})\<close> can do:
  reject (the promise throws), or resolve to \<open>{error, count}\<close> where \<open>error\<close> is null or
  carries a message and \<open>count\<close> is null or a number. The backend is a parameter: a function
  of the table, the chunk, the conflict key and the backend's state.
\<close>

datatype upsert_outcome = Rejected string | Responded "string option" "nat option"

type_synonym ('row, 'db) upsert_backend =
  "string \<Rightarrow> 'row list \<Rightarrow> string \<Rightarrow> 'db \<Rightarrow> upsert_outcome \<times> 'db"

text \<open>The calls that leave batchUpsert, in order: what a spy on the backend and on the callback records.\<close>

datatype 'row batch_event =
  UpsertCall string "'row list" string
  | BatchCompleteCall nat nat nat

record ('row, 'db) upsert_state =
  st_inserted :: nat
  st_errors :: "string list"
  st_db :: 'db
  st_events :: "'row batch_event list"

text \<open>\<open>table.split('.')\<close>: the segments between dots; never an empty array.\<close>

fun split_on :: "char \<Rightarrow> string \<Rightarrow> string list" where
  "split_on c [] = [[]]"
| "split_on c (x # xs) =
     (if x = c then [] # split_on c xs
      else (case split_on c xs of [] \<Rightarrow> [[x]] | w # ws \<Rightarrow> (x # w) # ws))"

text \<open>Decimal rendering of a number inside a template literal.\<close>

definition digit_char :: "nat \<Rightarrow> char" where
  "digit_char d = ''0123456789'' ! d"

fun decimal :: "nat \<Rightarrow> string" where
  "decimal n =
     (if n < 10 then [digit_char n]
      else decimal (n div 10) @ [digit_char (n mod 10)])"

declare decimal.simps [simp del]

text \<open>Reading a decimal numeral back: the number a text of digits names.\<close>

definition digit_value :: "char \<Rightarrow> nat" where
  "digit_value c = length (takeWhile (\<lambda>d. d \<noteq> c) ''0123456789'')"

definition read_decimal :: "string \<Rightarrow> nat" where
  "read_decimal s = foldl (\<lambda>acc c. 10 * acc + digit_value c) 0 s"

text \<open>
  \<^verbatim>\<open>const tableName = table.split('.').pop() ?? table;
  const batchSize = options?.batchSize ?? BATCH_SIZES[tableName] ?? DEFAULT_BATCH_SIZE;
  const continueOnError = options?.continueOnError ?? false;\<close>
  \<open>BATCH_SIZES\<close> is a plain object, so \<open>BATCH_SIZES[tableName]\<close> also finds the
  properties every object inherits from \<open>Object.prototype\<close>: for a table whose last
  segment is one of their names the value is a function (for \<open>__proto__\<close> an object),
  which is not nullish, and it becomes the batch size in place of the default.
\<close>

definition OBJECT_PROTOTYPE_KEYS :: "string list" where
  "OBJECT_PROTOTYPE_KEYS =
     [''constructor'', ''__defineGetter__'', ''__defineSetter__'', ''hasOwnProperty'',
      ''__lookupGetter__'', ''__lookupSetter__'', ''isPrototypeOf'', ''propertyIsEnumerable'',
      ''toString'', ''valueOf'', ''__proto__'', ''toLocaleString'']"

datatype batch_size = Size int | InheritedProperty

definition batch_size_for :: "string \<Rightarrow> BatchUpsertOptions option \<Rightarrow> batch_size" where
  "batch_size_for table options =
     (let tableName = last (split_on CHR ''.'' table)
      in case Option.bind options batchSize of
           Some b \<Rightarrow> Size b
         | None \<Rightarrow> (case map_of BATCH_SIZES tableName of
                      Some b \<Rightarrow> Size b
                    | None \<Rightarrow> if tableName \<in> set OBJECT_PROTOTYPE_KEYS then InheritedProperty
                              else Size DEFAULT_BATCH_SIZE))"

text \<open>
  chunkArray as batchUpsert calls it. With a number it is the function above. With an
  inherited property as the size and a non-empty array, the first round pushes
  \<open>array.slice(0, 0 + size)\<close>, where \<open>0 + size\<close> is a string and the end index
  becomes 0, so the chunk is empty; then \<open>i += size\<close> makes \<open>i\<close> a string that is
  not a number, \<open>i < array.length\<close> is false, and the loop ends with one empty chunk.
\<close>

definition chunkArray_with :: "'a list \<Rightarrow> batch_size \<Rightarrow> 'a list list option" where
  "chunkArray_with array sz =
     (case sz of
        Size n \<Rightarrow> chunkArray array n
      | InheritedProperty \<Rightarrow> Some (if array = [] then [] else [[]]))"

definition continue_on_error :: "BatchUpsertOptions option \<Rightarrow> bool" where
  "continue_on_error options =
     (case Option.bind options continueOnError of Some b \<Rightarrow> b | None \<Rightarrow> False)"

definition batch_failed_message :: "nat \<Rightarrow> nat \<Rightarrow> string \<Rightarrow> string" where
  "batch_failed_message i n msg =
     ''Batch '' @ decimal i @ ''/'' @ decimal n @ '' failed: '' @ msg"

text \<open>
  \<^verbatim>\<open>if (options?.onBatchComplete) {
    options.onBatchComplete(i + 1, inserted, data.length);
  }\<close>
  The result is \<open>Some\<close> message when the callback throws.
\<close>

definition notify_batch_complete ::
  "BatchUpsertOptions option \<Rightarrow> nat \<Rightarrow> nat \<Rightarrow> ('row, 'db) upsert_state
     \<Rightarrow> string option \<times> ('row, 'db) upsert_state" where
  "notify_batch_complete options i dataLength st =
     (case Option.bind options onBatchComplete of
        None \<Rightarrow> (None, st)
      | Some cb \<Rightarrow>
          (cb (i + 1) (st_inserted st) dataLength,
           st\<lparr>st_events := st_events st @ [BatchCompleteCall (i + 1) (st_inserted st) dataLength]\<rparr>))"

text \<open>
  The body of the \<open>try\<close> block for chunk \<open>i\<close> (0-based) of \<open>n\<close>:
  \<^verbatim>\<open>const { error, count } = await supabase.from(table).upsert(chunk, {onConflict, count: 'exact'});
  if (error) {
    const batchError = new Error(`Batch ${i + 1}/${chunks.length} failed: ${error.message}`);
    errors.push(batchError);
    if (!continueOnError) { throw batchError; }
  } else {
    inserted += count ?? chunk.length;
  }
  if (options?.onBatchComplete) { ... }\<close>
  The first component is \<open>Some\<close> message when the block throws.
\<close>

definition try_chunk ::
  "('row, 'db) upsert_backend \<Rightarrow> BatchUpsertOptions option \<Rightarrow> string \<Rightarrow> string
     \<Rightarrow> nat \<Rightarrow> nat \<Rightarrow> nat \<Rightarrow> 'row list \<Rightarrow> ('row, 'db) upsert_state
     \<Rightarrow> string option \<times> ('row, 'db) upsert_state" where
  "try_chunk upsert options table onConflict dataLength n i chunk st =
     (case upsert table chunk onConflict (st_db st) of
        (outcome, db') \<Rightarrow>
          (let st1 = st\<lparr>st_db := db',
                        st_events := st_events st @ [UpsertCall table chunk onConflict]\<rparr>
           in case outcome of
                Rejected thrown \<Rightarrow> (Some thrown, st1)
              | Responded (Some message) count \<Rightarrow>
                  (let batchError = batch_failed_message (i + 1) n message;
                       st2 = st1\<lparr>st_errors := st_errors st1 @ [batchError]\<rparr>
                   in if \<not> continue_on_error options then (Some batchError, st2)
                      else notify_batch_complete options i dataLength st2)
              | Responded None count \<Rightarrow>
                  notify_batch_complete options i dataLength
                    (st1\<lparr>st_inserted := st_inserted st1
                            + (case count of Some c \<Rightarrow> c | None \<Rightarrow> length chunk)\<rparr>)))"

text \<open>
  The \<open>for\<close> loop over the chunks with its \<open>catch\<close>:
  \<^verbatim>\<open>} catch (error) {
    if (!continueOnError) { throw error; }
    errors.push(error as Error);
  }\<close>
  The first component of the result is \<open>Some\<close> message when the loop is left by a throw.
\<close>

fun batchUpsert_loop ::
  "('row, 'db) upsert_backend \<Rightarrow> BatchUpsertOptions option \<Rightarrow> string \<Rightarrow> string
     \<Rightarrow> nat \<Rightarrow> nat \<Rightarrow> nat \<Rightarrow> 'row list list \<Rightarrow> ('row, 'db) upsert_state
     \<Rightarrow> string option \<times> ('row, 'db) upsert_state" where
  "batchUpsert_loop upsert options table onConflict dataLength n i [] st = (None, st)"
| "batchUpsert_loop upsert options table onConflict dataLength n i (chunk # rest) st =
     (case try_chunk upsert options table onConflict dataLength n i chunk st of
        (None, st') \<Rightarrow> batchUpsert_loop upsert options table onConflict dataLength n (i + 1) rest st'
      | (Some thrown, st') \<Rightarrow>
          if \<not> continue_on_error options then (Some thrown, st')
          else batchUpsert_loop upsert options table onConflict dataLength n (i + 1) rest
                 (st'\<lparr>st_errors := st_errors st' @ [thrown]\<rparr>))"

text \<open>
  batchUpsert. The result is \<open>None\<close> when the call never returns (chunkArray with a batch
  size \<open>\<le> 0\<close>); otherwise the thrown message (\<open>Inl\<close>) or the returned record (\<open>Inr\<close>),
  with the backend's final state and the calls made.
\<close>

definition batchUpsert ::
  "('row, 'db) upsert_backend \<Rightarrow> 'db \<Rightarrow> string \<Rightarrow> 'row list \<Rightarrow> string
     \<Rightarrow> BatchUpsertOptions option
     \<Rightarrow> ((string + BatchUpsertResult) \<times> 'db \<times> 'row batch_event list) option" where
  "batchUpsert upsert db0 table data onConflict options =
     (if length data = 0
      then Some (Inr \<lparr>inserted = 0, errors = [], batchCount = 0\<rparr>, db0, [])
      else
        (case chunkArray_with data (batch_size_for table options) of
           None \<Rightarrow> None
         | Some chunks \<Rightarrow>
             (case batchUpsert_loop upsert options table onConflict (length data)
                     (length chunks) 0 chunks
                     \<lparr>st_inserted = 0, st_errors = [], st_db = db0, st_events = []\<rparr> of
                (Some thrown, st) \<Rightarrow> Some (Inl thrown, st_db st, st_events st)
              | (None, st) \<Rightarrow>
                  Some (Inr \<lparr>inserted = st_inserted st, errors = st_errors st,
                             batchCount = length chunks\<rparr>,
                        st_db st, st_events st))))"

text \<open>The backend calls among the recorded calls.\<close>

fun is_upsert_call :: "'row batch_event \<Rightarrow> bool" where
  "is_upsert_call (UpsertCall t c k) = True"
| "is_upsert_call (BatchCompleteCall i ins dataLength) = False"

definition upsert_calls :: "'row batch_event list \<Rightarrow> 'row batch_event list" where
  "upsert_calls evs = filter is_upsert_call evs"

text \<open>Two backends for concrete runs: one that counts its calls and reports every row, one whose call number n (from 0) reports an error.\<close>

definition counting_backend :: "(nat, nat) upsert_backend" where
  "counting_backend table chunk onConflict calls = (Responded None (Some (length chunk)), Suc calls)"

definition failing_backend :: "nat \<Rightarrow> string \<Rightarrow> (nat, nat) upsert_backend" where
  "failing_backend n msg table chunk onConflict calls =
     (if calls = n then Responded (Some msg) None else Responded None None, Suc calls)"

section \<open>Cron B entrypoint (app/api/cron/jquants/b/route.ts)\<close>

text \<open>
  The route handler awaits functions of other modules. Each of them either returns or
  throws; what each does in one execution is the environment of that execution. A thrown
  value is represented by its message (\<open>error instanceof Error ? error.message : String(error)\<close>).
  Logging and the construction of a JSON response are taken to return normally. A kill of
  the process by the platform's time limit is outside the model.
\<close>

datatype job_status = Running | Success | Failed

text \<open>\<open>{ success, token?, error? }\<close> of job-lock.ts.\<close>

record LockResult =
  success :: bool
  token :: "string option"
  error :: "string option"

text \<open>\<open>{ runId, error? }\<close> of job-run.ts; the second field is \<open>error\<close> in the source.\<close>

record StartJobRunResult =
  runId :: string
  startError :: "string option"

text \<open>
  The fields of CronBResult the route reads: \<open>success\<close>, \<open>announcementDate\<close>,
  \<open>fetched\<close>, \<open>inserted\<close>, \<open>error\<close>.
\<close>

record CronBResult =
  handlerSuccess :: bool
  announcementDate :: "string option"
  fetched :: nat
  handlerInserted :: nat
  handlerError :: "string option"

datatype response_body =
  AuthFailure string
  | AnotherJobRunning "string option"
  | JobAlreadyExecuted "string option"
  | Completed bool string "string option" nat nat "string option"
  | InternalServerError "string option" "string option"

record http_response =
  status :: nat
  body :: response_body

datatype cron_event =
  AcquireLock string nat
  | StartJobRun string
  | UpdateHeartbeat string job_status string "string option" "string option"
  | HandleCronB string
  | CompleteJobRun string job_status "string option"
  | ReleaseLock string "string option"

text \<open>
  For a call that returns a value, \<open>Inl\<close> is the message it throws; for a call that
  returns nothing, \<open>Some\<close> is the message it throws.
\<close>

record cron_env =
  authError :: "http_response option"
  acquireOutcome :: "string + LockResult"
  startOutcome :: "string + StartJobRunResult"
  heartbeatRunningOutcome :: "string option"
  handlerOutcome :: "string + CronBResult"
  completeOutcome :: "string option"
  heartbeatFinalOutcome :: "string option"
  releaseOutcome :: "string option"
  isDev :: bool

definition JOB_NAME :: string where
  "JOB_NAME = ''cron_b''"

definition LOCK_TTL_SECONDS :: nat where
  "LOCK_TTL_SECONDS = 60"

text \<open>JavaScript truthiness of a string and of an optional string.\<close>

definition truthy :: "string \<Rightarrow> bool" where
  "truthy s \<longleftrightarrow> s \<noteq> []"

definition truthy_opt :: "string option \<Rightarrow> bool" where
  "truthy_opt e = (case e of None \<Rightarrow> False | Some s \<Rightarrow> truthy s)"

text \<open>
  The \<open>try\<close> block (steps 3 to 8 of the route). It ends by a \<open>return\<close> (\<open>Inr\<close>
  response) or by a throw (\<open>Inl\<close>, the message and the value of \<open>runId\<close> at that
  moment).
\<close>

definition try_block ::
  "cron_env \<Rightarrow> cron_event list \<times> ((string \<times> string) + http_response)" where
  "try_block env =
     (case startOutcome env of
        Inl thrown \<Rightarrow> ([StartJobRun JOB_NAME], Inl (thrown, []))
      | Inr startResult \<Rightarrow>
          if truthy_opt (startError startResult)
          then ([StartJobRun JOB_NAME],
                Inr \<lparr>status = 200, body = JobAlreadyExecuted (startError startResult)\<rparr>)
          else
            (let rid = runId startResult;
                 ev4 = [StartJobRun JOB_NAME, UpdateHeartbeat JOB_NAME Running rid None None]
             in case heartbeatRunningOutcome env of
                  Some thrown \<Rightarrow> (ev4, Inl (thrown, rid))
                | None \<Rightarrow>
                    (let ev5 = ev4 @ [HandleCronB rid]
                     in case handlerOutcome env of
                          Inl thrown \<Rightarrow> (ev5, Inl (thrown, rid))
                        | Inr result \<Rightarrow>
                            (let final = (if handlerSuccess result then Success else Failed);
                                 ev6 = ev5 @ [CompleteJobRun rid final (handlerError result)]
                             in case completeOutcome env of
                                  Some thrown \<Rightarrow> (ev6, Inl (thrown, rid))
                                | None \<Rightarrow>
                                    (let ev7 = ev6 @ [UpdateHeartbeat JOB_NAME final rid
                                                 (announcementDate result) (handlerError result)]
                                     in case heartbeatFinalOutcome env of
                                          Some thrown \<Rightarrow> (ev7, Inl (thrown, rid))
                                        | None \<Rightarrow>
                                            (ev7,
                                             Inr \<lparr>status = 200,
                                                  body = Completed (handlerSuccess result) rid
                                                    (announcementDate result) (fetched result)
                                                    (handlerInserted result)
                                                    (handlerError result)\<rparr>))))))"

text \<open>
  The \<open>catch\<close> block: when a run was started it is recorded as failed, both calls inside
  \<open>Promise.allSettled\<close>, whose rejections are dropped; the response is a 500.
\<close>

definition catch_block ::
  "cron_env \<Rightarrow> string \<Rightarrow> string \<Rightarrow> cron_event list \<times> http_response" where
  "catch_block env errorMessage rid =
     ((if truthy rid
       then [CompleteJobRun rid Failed (Some errorMessage),
             UpdateHeartbeat JOB_NAME Failed rid None (Some errorMessage)]
       else []),
      \<lparr>status = 500,
       body = InternalServerError (if isDev env then Some errorMessage else None)
                (if truthy rid then Some rid else None)\<rparr>)"

text \<open>
  POST. The result is the calls made, in order, and the response (\<open>Inr\<close>) or the
  message of an exception that leaves the handler (\<open>Inl\<close>). The \<open>finally\<close> block calls
  releaseLock inside its own \<open>try\<close>/\<open>catch\<close>, which only logs.
\<close>

definition POST :: "cron_env \<Rightarrow> cron_event list \<times> (string + http_response)" where
  "POST env =
     (case authError env of
        Some response \<Rightarrow> ([], Inr response)
      | None \<Rightarrow>
          (case acquireOutcome env of
             Inl thrown \<Rightarrow> ([AcquireLock JOB_NAME LOCK_TTL_SECONDS], Inl thrown)
           | Inr lockResult \<Rightarrow>
               if \<not> success lockResult
               then ([AcquireLock JOB_NAME LOCK_TTL_SECONDS],
                     Inr \<lparr>status = 409, body = AnotherJobRunning (error lockResult)\<rparr>)
               else
                 (let lockToken = token lockResult;
                      (tryEvents, tried) = try_block env;
                      (catchEvents, response) =
                        (case tried of
                           Inr returned \<Rightarrow> ([], returned)
                         | Inl (errorMessage, rid) \<Rightarrow> catch_block env errorMessage rid);
                      release = (case releaseOutcome env of None \<Rightarrow> () | Some releaseError \<Rightarrow> ())
                  in (AcquireLock JOB_NAME LOCK_TTL_SECONDS # tryEvents @ catchEvents
                        @ [ReleaseLock JOB_NAME lockToken],
                      Inr response))))"

fun is_release :: "cron_event \<Rightarrow> bool" where
  "is_release (ReleaseLock job tok) = True"
| "is_release other = False"

text \<open>Four executions of the entrypoint: a successful run, a run whose handler reports a failure, a run already executed, a run whose handler throws. In each the release of the lock fails.\<close>

definition env_normal :: cron_env where
  "env_normal =
     \<lparr>authError = None,
      acquireOutcome = Inr \<lparr>success = True, token = Some ''token-1'', error = None\<rparr>,
      startOutcome = Inr \<lparr>runId = ''run-1'', startError = None\<rparr>,
      heartbeatRunningOutcome = None,
      handlerOutcome = Inr \<lparr>handlerSuccess = True, announcementDate = Some ''2024-01-16'',
                           fetched = 3, handlerInserted = 3, handlerError = None\<rparr>,
      completeOutcome = None,
      heartbeatFinalOutcome = None,
      releaseOutcome = Some ''Delete failed'',
      isDev = False\<rparr>"

definition env_handler_failed :: cron_env where
  "env_handler_failed =
     env_normal\<lparr>handlerOutcome := Inr \<lparr>handlerSuccess = False, announcementDate = None,
                           fetched = 0, handlerInserted = 0, handlerError = Some ''API timeout''\<rparr>\<rparr>"

definition env_already_executed :: cron_env where
  "env_already_executed =
     env_normal\<lparr>startOutcome := Inr \<lparr>runId = [],
                    startError = Some ''Job already executed for this target date''\<rparr>\<rparr>"

definition env_handler_throws :: cron_env where
  "env_handler_throws = env_normal\<lparr>handlerOutcome := Inl ''Network error''\<rparr>"

section \<open>Job-run ledger (supabase/migrations/00002_create_ingest_tables.sql, cron/job-run.ts)\<close>

subsection \<open>The table job_runs\<close>

text \<open>
  \<^verbatim>\<open>create table if not exists jquants_ingest.job_runs (
    run_id        uuid primary key default gen_random_uuid(),
    job_name      text not null check (job_name in ('cron_a', 'cron_b', 'cron_c')),
    target_date   date,
    status        text not null default 'running' check (status in ('running', 'success', 'failed')),
    started_at    timestamptz not null default now(),
    finished_at   timestamptz,
    error_message text,
    meta          jsonb not null default '{}'::jsonb
  );
  create unique index if not exists uq_job_runs_job_target
    on jquants_ingest.job_runs (job_name, target_date)
    where target_date is not null;\<close>
  A later migration adds \<open>'scouter-high-dividend'\<close> to the allowed job names. Timestamps
  are milliseconds since the epoch; the column \<open>status\<close> is \<open>run_status\<close> here.
\<close>

record job_run =
  run_id :: string
  job_name :: string
  target_date :: "string option"
  run_status :: job_status
  started_at :: int
  finished_at :: "int option"
  error_message :: "string option"
  meta :: "(string \<times> string) list"

text \<open>The error object of the storage client: \<open>{ code, message }\<close>.\<close>

record db_error =
  code :: string
  message :: string

definition job_names :: "string list" where
  "job_names = [''cron_a'', ''cron_b'', ''cron_c'', ''scouter-high-dividend'']"

definition UNIQUE_VIOLATION :: string where
  "UNIQUE_VIOLATION = ''23505''"

definition CHECK_VIOLATION :: string where
  "CHECK_VIOLATION = ''23514''"

text \<open>
  INSERT of one row under the constraints of the table: the primary key, the check on
  the job name, and the partial unique index, which covers only rows with a target date.
\<close>

definition insert_job_run :: "job_run list \<Rightarrow> job_run \<Rightarrow> db_error + job_run list" where
  "insert_job_run rows new =
     (if \<exists>r \<in> set rows. run_id r = run_id new
      then Inl \<lparr>code = UNIQUE_VIOLATION,
                message = ''duplicate key value violates unique constraint job_runs_pkey''\<rparr>
      else if job_name new \<notin> set job_names
      then Inl \<lparr>code = CHECK_VIOLATION,
                message = ''new row violates check constraint job_runs_job_name_check''\<rparr>
      else if target_date new \<noteq> None
              \<and> (\<exists>r \<in> set rows. job_name r = job_name new \<and> target_date r = target_date new)
      then Inl \<lparr>code = UNIQUE_VIOLATION,
                message = ''duplicate key value violates unique constraint uq_job_runs_job_target''\<rparr>
      else Inr (rows @ [new]))"

text \<open>UPDATE ... WHERE run_id = id.\<close>

definition update_job_run ::
  "job_run list \<Rightarrow> string \<Rightarrow> (job_run \<Rightarrow> job_run) \<Rightarrow> job_run list" where
  "update_job_run rows rid change = map (\<lambda>r. if run_id r = rid then change r else r) rows"

subsection \<open>startJobRun and completeJobRun\<close>

record StartJobRunParams =
  jobName :: string
  targetDate :: "string option"
  metaParam :: "(string \<times> string) list option"

text \<open>
  Modelled from the spec: cron/job-run.ts is not among the sources (its unit test is);
  startJobRun follows section 4.6 and the test's expectations: it inserts a \<open>running\<close>
  row and returns its run id; a storage error with code 23505 becomes
  "Job already executed for this target date", any other storage error its own
  message, both with an empty run id. The storage either fails for a reason of its own
  (\<open>fault\<close>, nothing is written) or performs the insert under the table's constraints; the
  uuid the database generates and its clock are parameters.
\<close>

definition startJobRun ::
  "db_error option \<Rightarrow> string \<Rightarrow> int \<Rightarrow> job_run list \<Rightarrow> StartJobRunParams
     \<Rightarrow> StartJobRunResult \<times> job_run list" where
  "startJobRun fault uuid now rows params =
     (let new = \<lparr>run_id = uuid, job_name = jobName params, target_date = targetDate params,
                 run_status = Running, started_at = now, finished_at = None,
                 error_message = None,
                 meta = (case metaParam params of Some m \<Rightarrow> m | None \<Rightarrow> [])\<rparr>;
          answer = (case fault of Some e \<Rightarrow> Inl e | None \<Rightarrow> insert_job_run rows new)
      in case answer of
           Inr rows' \<Rightarrow> (\<lparr>runId = uuid, startError = None\<rparr>, rows')
         | Inl e \<Rightarrow>
             if code e = UNIQUE_VIOLATION
             then (\<lparr>runId = [], startError = Some ''Job already executed for this target date''\<rparr>,
                   rows)
             else (\<lparr>runId = [], startError = Some (message e)\<rparr>, rows))"

definition MAX_ERROR_MESSAGE_LENGTH :: nat where
  "MAX_ERROR_MESSAGE_LENGTH = 10000"

definition truncateErrorMessage :: "string \<Rightarrow> string" where
  "truncateErrorMessage msg =
     (if length msg > MAX_ERROR_MESSAGE_LENGTH
      then take MAX_ERROR_MESSAGE_LENGTH msg @ ''... (truncated)''
      else msg)"

text \<open>
  Modelled from the spec: completeJobRun of cron/job-run.ts, after section 4.6 and the
  unit test: it updates status and finished-at of the row of the run, stores the error
  message cut to 10,000 characters with the marker "... (truncated)", and returns
  normally when the storage reports an error (which is only logged). The first component
  of the result is the message of an exception leaving the function, \<open>None\<close> when it
  returns.
\<close>

definition completeJobRun ::
  "db_error option \<Rightarrow> int \<Rightarrow> job_run list \<Rightarrow> string \<Rightarrow> job_status \<Rightarrow> string option
     \<Rightarrow> string option \<times> job_run list" where
  "completeJobRun fault now rows rid final errorMessage =
     (let stored = map_option truncateErrorMessage errorMessage
      in case fault of
           Some e \<Rightarrow> (None, rows)
         | None \<Rightarrow>
             (None,
              update_job_run rows rid
                (\<lambda>r. r\<lparr>run_status := final, finished_at := Some now,
                         error_message := stored\<rparr>)))"

section \<open>Heartbeat (cron/heartbeat.ts)\<close>

text \<open>
  A row of job_heartbeat as the client reads it. \<open>last_seen_at\<close> is the time in
  milliseconds since the epoch; the columns \<open>job_name\<close> and \<open>meta\<close> are
  \<open>heartbeat_job_name\<close> and \<open>heartbeat_meta\<close> here.
\<close>

record HeartbeatRecord =
  heartbeat_job_name :: string
  last_seen_at :: int
  last_status :: job_status
  last_run_id :: "string option"
  last_target_date :: "string option"
  last_error :: "string option"
  heartbeat_meta :: "(string \<times> string) list"

record HealthResult =
  healthy :: bool
  reason :: "string option"

definition DEFAULT_STALE_HOURS :: int where
  "DEFAULT_STALE_HOURS = 25"

definition MS_PER_HOUR :: int where
  "MS_PER_HOUR = 3600000"

definition show_int :: "int \<Rightarrow> string" where
  "show_int i = (if i < 0 then ''-'' @ decimal (nat (- i)) else decimal (nat i))"

text \<open>
  Modelled from the spec: isJobHealthy of cron/heartbeat.ts, which is not among the
  sources (its unit test is). After section 4.6: no record is unhealthy with the reason
  "No heartbeat record found"; an age beyond the threshold (default 25 hours) is
  unhealthy ("stale, N hours ago"); a last status \<open>failed\<close> is unhealthy
  ("last run failed: error"); anything else is healthy. The current time, which the
  function reads from the clock, is a parameter; the threshold is a whole number of
  hours, and an omitted threshold is \<open>None\<close>.
\<close>

definition isJobHealthy :: "int \<Rightarrow> HeartbeatRecord option \<Rightarrow> int option \<Rightarrow> HealthResult" where
  "isJobHealthy now heartbeat staleHoursThreshold =
     (let threshold = (case staleHoursThreshold of Some h \<Rightarrow> h | None \<Rightarrow> DEFAULT_STALE_HOURS)
      in case heartbeat of
           None \<Rightarrow> \<lparr>healthy = False, reason = Some ''No heartbeat record found''\<rparr>
         | Some hb \<Rightarrow>
             (let age = now - last_seen_at hb
              in if age > threshold * MS_PER_HOUR
                 then \<lparr>healthy = False,
                       reason = Some (''Stale: last seen '' @ show_int (age div MS_PER_HOUR)
                                        @ '' hours ago'')\<rparr>
                 else if last_status hb = Failed
                 then \<lparr>healthy = False,
                       reason = Some (''Last run failed: ''
                                        @ (case last_error hb of Some e \<Rightarrow> e
                                           | None \<Rightarrow> ''Unknown error''))\<rparr>
                 else \<lparr>healthy = True, reason = None\<rparr>))"

section \<open>Paginated API client (jquants/client.ts)\<close>

text \<open>
  The body of a response: \<open>{ data: Item[], pagination_key?: string }\<close> (the page token
  of the spec).
\<close>

record 'item api_response =
  data :: "'item list"
  pagination_key :: "string option"

text \<open>
  One underlying HTTP call (rate-limit token, fetch with retry, JSON body), as a function
  of the server's state and the page token sent: it throws (\<open>Inl\<close> message) or returns
  a body, and the server moves to a new state.
\<close>

type_synonym ('item, 'srv) http_fetch =
  "'srv \<Rightarrow> string option \<Rightarrow> (string + 'item api_response) \<times> 'srv"

text \<open>What an observer of the generator sees: each HTTP call with its token and each page yielded.\<close>

datatype 'item page_event = HttpCall "string option" | YieldPage "'item list"

text \<open>
  Modelled from the spec: requestPaginated of jquants/client.ts, which is not among the
  sources (its unit test is). After section 4.3: it calls \<open>request\<close> with the previous
  page's token until a response omits the token, yielding each page's items before
  fetching the next; an error from any page ends the sequence. The loop does not end
  when the server always sends a token, so it is a partial function. The result is the
  server's final state, the events so far and the error that ended the sequence, if any.
\<close>

partial_function (option) requestPaginated ::
  "('item, 'srv) http_fetch \<Rightarrow> 'srv \<Rightarrow> string option \<Rightarrow> 'item page_event list
     \<Rightarrow> ('srv \<times> 'item page_event list \<times> string option) option" where
  "requestPaginated fetch srv key events =
     (case fetch srv key of
        (Inl thrown, srv') \<Rightarrow> Some (srv', events @ [HttpCall key], Some thrown)
      | (Inr response, srv') \<Rightarrow>
          (let events' = events @ [HttpCall key, YieldPage (data response)]
           in case pagination_key response of
                None \<Rightarrow> Some (srv', events', None)
              | Some next_key \<Rightarrow> requestPaginated fetch srv' (Some next_key) events'))"

fun yielded_items :: "'item page_event \<Rightarrow> 'item list" where
  "yielded_items (YieldPage items) = items"
| "yielded_items (HttpCall key) = []"

fun is_http_call :: "'item page_event \<Rightarrow> bool" where
  "is_http_call (HttpCall key) = True"
| "is_http_call (YieldPage items) = False"

text \<open>
  Modelled from the spec: a fetch of all pages (getEquityBarsDaily in the unit test), which
  drains requestPaginated and accumulates the items of the pages in order; an error of a
  page is thrown (\<open>Inl\<close>).
\<close>

definition fetchAllPages ::
  "('item, 'srv) http_fetch \<Rightarrow> 'srv
     \<Rightarrow> ((string + 'item list) \<times> 'item page_event list) option" where
  "fetchAllPages fetch srv =
     (case requestPaginated fetch srv None [] of
        None \<Rightarrow> None
      | Some (srv', events, Some thrown) \<Rightarrow> Some (Inl thrown, events)
      | Some (srv', events, None) \<Rightarrow> Some (Inr (concat (map yielded_items events)), events))"

text \<open>A server that answers from a list of prepared responses, one per call.\<close>

definition scripted_fetch :: "('item, (string + 'item api_response) list) http_fetch" where
  "scripted_fetch script key =
     (case script of
        [] \<Rightarrow> (Inl ''no response prepared'', [])
      | answer # rest \<Rightarrow> (answer, rest))"

section \<open>Distributed job lock (supabase/migrations/00002_create_ingest_tables.sql, cron/job-lock.ts)\<close>

subsection \<open>The table job_locks\<close>







subsection \<open>acquireLock, releaseLock, extendLock, cleanupExpiredLocks\<close>












subsection \<open>Processes sharing the table\<close>
















section \<open>Properties of the business-day classification\<close>

text \<open>
  Claim C5. isBusinessDay is a total function on strings that returns true for exactly
  the inputs "1" and "2" and false for every other string, among them "0", the empty
  string and unrecognised codes.
\<close>

theorem isBusinessDay_exactly_1_2:
  "(isBusinessDay s \<longleftrightarrow> s \<in> {''1'', ''2''})
   \<and> isBusinessDay ''1'' \<and> isBusinessDay ''2''
   \<and> \<not> isBusinessDay ''0'' \<and> \<not> isBusinessDay '''' \<and> \<not> isBusinessDay ''3''
   \<and> \<not> isBusinessDay ''invalid''"
  by (simp add: isBusinessDay_def)

section \<open>Properties of chunkArray\<close>

lemma slice_in_range:
  assumes "0 \<le> i" "i < int (length a)" "1 \<le> sz"
  shows "slice a i (i + sz) = take (nat sz) (drop (nat i) a)"
proof -
  have "take (nat (min (i + sz) (int (length a)) - i)) (drop (nat i) a)
        = take (nat sz) (drop (nat i) a)"
  proof (cases "i + sz \<le> int (length a)")
    case True
    then show ?thesis by (simp add: min_def)
  next
    case False
    then have "length (drop (nat i) a) \<le> nat sz"
      "length (drop (nat i) a) \<le> nat (min (i + sz) (int (length a)) - i)"
      using assms by (auto simp: min_def)
    then show ?thesis by simp
  qed
  then show ?thesis
    using assms by (simp add: slice_def Let_def min_def)
qed

lemma chunkArray_loop_partition:
  assumes "1 \<le> sz" "0 \<le> i"
  shows "\<exists>r. chunkArray_loop a sz i chunks = Some (chunks @ r)
           \<and> concat r = drop (nat i) a
           \<and> (\<forall>c \<in> set r. c \<noteq> [] \<and> int (length c) \<le> sz)
           \<and> (\<forall>c \<in> set (butlast r). int (length c) = sz)"
  using assms(2)
proof (induction "nat (int (length a) - i)" arbitrary: i chunks rule: less_induct)
  case less
  show ?case
  proof (cases "i < int (length a)")
    case False
    then have "chunkArray_loop a sz i chunks = Some (chunks @ [])"
      by (subst chunkArray_loop.simps) simp
    moreover have "drop (nat i) a = []"
      using False less.prems by simp
    ultimately show ?thesis
      by (intro exI [of _ "[]"]) simp
  next
    case True
    let ?s = "slice a i (i + sz)"
    have s_eq: "?s = take (nat sz) (drop (nat i) a)"
      using slice_in_range [OF less.prems True assms(1)] .
    have s_ne: "?s \<noteq> []"
      using True less.prems assms(1) by (simp add: s_eq)
    have s_len: "int (length ?s) \<le> sz"
      using assms(1) by (simp add: s_eq)
    have "nat (int (length a) - (i + sz)) < nat (int (length a) - i)"
      using True assms(1) by linarith
    moreover have "0 \<le> i + sz"
      using less.prems assms(1) by linarith
    ultimately obtain r where r:
      "chunkArray_loop a sz (i + sz) (chunks @ [?s]) = Some ((chunks @ [?s]) @ r)"
      "concat r = drop (nat (i + sz)) a"
      "\<forall>c \<in> set r. c \<noteq> [] \<and> int (length c) \<le> sz"
      "\<forall>c \<in> set (butlast r). int (length c) = sz"
      using less.hyps [of "i + sz" "chunks @ [?s]"] by blast
    have step: "chunkArray_loop a sz i chunks = Some (chunks @ (?s # r))"
      using True r(1) by (subst chunkArray_loop.simps) simp
    have "nat (i + sz) = nat i + nat sz"
      using less.prems assms(1) by (simp add: nat_add_distrib)
    then have cat: "concat (?s # r) = drop (nat i) a"
      using r(2) by (simp add: s_eq add.commute [of "nat i"] flip: drop_drop)
    have full: "int (length ?s) = sz" if "r \<noteq> []"
    proof -
      from that obtain c where "c \<in> set r" by (cases r) auto
      with r(3) have "concat r \<noteq> []" by auto
      with r(2) have "nat (i + sz) < length a" by simp
      then show ?thesis
        using less.prems assms(1) by (simp add: s_eq)
    qed
    have "\<forall>c \<in> set (butlast (?s # r)). int (length c) = sz"
      using r(4) full by auto
    moreover have "\<forall>c \<in> set (?s # r). c \<noteq> [] \<and> int (length c) \<le> sz"
      using r(3) s_ne s_len by auto
    ultimately show ?thesis
      using step cat by blast
  qed
qed

text \<open>
  Claim C10. For every array a and every chunk size s \<ge> 1, chunkArray returns, and the
  chunks it returns partition a: their concatenation in order is a, every chunk but the
  last has length exactly s, the last chunk is not empty when a is not empty, and the
  chunks of the empty array are the empty list.
\<close>

theorem chunkArray_partition:
  assumes "1 \<le> s"
  shows "\<exists>chunks. chunkArray a s = Some chunks
           \<and> concat chunks = a
           \<and> (\<forall>c \<in> set (butlast chunks). int (length c) = s)
           \<and> (a \<noteq> [] \<longrightarrow> chunks \<noteq> [] \<and> last chunks \<noteq> [])
           \<and> chunkArray ([] :: 'a list) s = Some []"
proof -
  obtain r where r:
    "chunkArray_loop a s 0 [] = Some ([] @ r)"
    "concat r = drop (nat 0) a"
    "\<forall>c \<in> set r. c \<noteq> [] \<and> int (length c) \<le> s"
    "\<forall>c \<in> set (butlast r). int (length c) = s"
    using chunkArray_loop_partition [OF assms, of 0 a "[]"] by auto
  have "r \<noteq> [] \<and> last r \<noteq> []" if "a \<noteq> []"
  proof -
    from that r(2) have "r \<noteq> []" by auto
    then have "last r \<in> set r" by simp
    with r(3) \<open>r \<noteq> []\<close> show ?thesis by blast
  qed
  moreover have "chunkArray ([] :: 'a list) s = Some []"
    unfolding chunkArray_def by (subst chunkArray_loop.simps) simp
  ultimately show ?thesis
    using r by (auto simp: chunkArray_def)
qed

theorem chunkArray_partition_witness:
  "(1::int) \<le> 3
   \<and> chunkArray [1, 2, 3, 4, 5, 6, 7, 8, 9, 10 :: nat] 3
       = Some [[1, 2, 3], [4, 5, 6], [7, 8, 9], [10]]
   \<and> (\<exists>chunks. chunkArray [1, 2, 3, 4, 5, 6, 7, 8, 9, 10 :: nat] 3 = Some chunks
         \<and> concat chunks = [1, 2, 3, 4, 5, 6, 7, 8, 9, 10]
         \<and> (\<forall>c \<in> set (butlast chunks). int (length c) = 3)
         \<and> chunks \<noteq> [] \<and> last chunks \<noteq> [])"
proof -
  have run: "chunkArray [1, 2, 3, 4, 5, 6, 7, 8, 9, 10 :: nat] 3
               = Some [[1, 2, 3], [4, 5, 6], [7, 8, 9], [10]]"
    by (simp add: chunkArray_def chunkArray_loop.simps slice_def)
  have h: "(1::int) \<le> 3" by simp
  show ?thesis
    using run h chunkArray_partition [OF h, of "[1, 2, 3, 4, 5, 6, 7, 8, 9, 10 :: nat]"]
    by simp
qed

section \<open>Properties of batchUpsert\<close>

lemma try_chunk_calls:
  "upsert_calls (st_events (snd (try_chunk upsert options table onConflict dataLength n i chunk st)))
     = upsert_calls (st_events st) @ [UpsertCall table chunk onConflict]"
  by (auto simp: try_chunk_def notify_batch_complete_def upsert_calls_def Let_def
           split: prod.splits upsert_outcome.splits option.splits)

lemma batchUpsert_loop_append:
  "batchUpsert_loop upsert options table onConflict dataLength n i (xs @ ys) st
     = (case batchUpsert_loop upsert options table onConflict dataLength n i xs st of
          (Some thrown, st') \<Rightarrow> (Some thrown, st')
        | (None, st') \<Rightarrow>
            batchUpsert_loop upsert options table onConflict dataLength n (i + length xs) ys st')"
proof (induction xs arbitrary: i st)
  case Nil
  then show ?case by simp
next
  case (Cons x xs)
  show ?case
    by (auto simp: Cons.IH split: prod.splits option.splits)
qed

lemma loop_continue_all:
  assumes "continue_on_error options"
  shows "fst (batchUpsert_loop upsert options table onConflict dataLength n i cs st) = None
       \<and> upsert_calls (st_events (snd (batchUpsert_loop upsert options table onConflict dataLength n i cs st)))
           = upsert_calls (st_events st) @ map (\<lambda>c. UpsertCall table c onConflict) cs
       \<and> set (st_errors st) \<subseteq> set (st_errors (snd (batchUpsert_loop upsert options table onConflict dataLength n i cs st)))"
proof (induction cs arbitrary: i st)
  case Nil
  then show ?case by simp
next
  case (Cons c cs)
  obtain r st' where t: "try_chunk upsert options table onConflict dataLength n i c st = (r, st')"
    by (cases "try_chunk upsert options table onConflict dataLength n i c st")
  have calls: "upsert_calls (st_events st') = upsert_calls (st_events st) @ [UpsertCall table c onConflict]"
    using try_chunk_calls [of upsert options table onConflict dataLength n i c st] t by simp
  have errs: "set (st_errors st) \<subseteq> set (st_errors st')"
    using t by (auto simp: try_chunk_def notify_batch_complete_def Let_def
           split: prod.splits upsert_outcome.splits option.splits if_splits)
  show ?case
  proof (cases r)
    case None
    then show ?thesis
      using t calls errs Cons.IH [of "i + 1" st'] by auto
  next
    case (Some m)
    then show ?thesis
      using t calls errs assms Cons.IH [of "i + 1" "st'\<lparr>st_errors := st_errors st' @ [m]\<rparr>"] by auto
  qed
qed

lemma chunkArray_1500:
  assumes "length input = 1500"
  shows "chunkArray input 1000 = Some [take 1000 input, drop 1000 input]"
proof -
  have "slice input 0 (0 + 1000) = take 1000 input"
    using slice_in_range [of 0 input 1000] assms by simp
  moreover have "slice input 1000 (1000 + 1000) = drop 1000 input"
    using slice_in_range [of 1000 input 1000] assms by simp
  ultimately show ?thesis
    using assms unfolding chunkArray_def
    by (simp add: chunkArray_loop.simps [of input 1000 0] chunkArray_loop.simps [of input 1000 1000]
          chunkArray_loop.simps [of input 1000 2000])
qed


lemma batchUpsert_loop_at:
  assumes "k < length cs"
    and "batchUpsert_loop upsert options table onConflict dataLength n 0 (take k cs) st0 = (None, stk)"
  shows "batchUpsert_loop upsert options table onConflict dataLength n 0 cs st0
           = batchUpsert_loop upsert options table onConflict dataLength n k
               (cs ! k # drop (Suc k) cs) stk"
proof -
  have "batchUpsert_loop upsert options table onConflict dataLength n 0
          (take k cs @ cs ! k # drop (Suc k) cs) st0
        = batchUpsert_loop upsert options table onConflict dataLength n k
            (cs ! k # drop (Suc k) cs) stk"
    using assms by (simp only: batchUpsert_loop_append) simp
  then show ?thesis
    using id_take_nth_drop [OF assms(1)] by simp
qed

lemma batchUpsert_empty:
  "batchUpsert upsert db0 table [] onConflict options
     = Some (Inr \<lparr>inserted = 0, errors = [], batchCount = 0\<rparr>, db0, [])"
  by (simp add: batchUpsert_def)

lemma digit_value_digit_char:
  assumes "d < 10"
  shows "digit_value (digit_char d) = d"
proof -
  from assms have "d \<in> {0, 1, 2, 3, 4, 5, 6, 7, 8, 9}"
    by auto
  then show ?thesis
    by (auto simp: digit_value_def digit_char_def)
qed

lemma read_decimal_decimal: "read_decimal (decimal n) = n"
proof (induction n rule: decimal.induct)
  case (1 n)
  show ?case
  proof (cases "n < 10")
    case True
    then show ?thesis
      by (subst decimal.simps) (simp add: read_decimal_def digit_value_digit_char)
  next
    case False
    then have "read_decimal (decimal (n div 10)) = n div 10"
      using "1.IH" by simp
    with False show ?thesis
      by (subst decimal.simps) (simp add: read_decimal_def digit_value_digit_char)
  qed
qed

lemma chunkArray_returns:
  assumes "1 \<le> b"
  shows "\<exists>chunks. chunkArray input b = Some chunks \<and> concat chunks = input"
  using chunkArray_loop_partition [OF assms, of 0 input "[]"]
  by (auto simp: chunkArray_def)

lemma batchUpsert_two_chunks:
  assumes len: "length input = 1500"
    and sz: "batch_size_for table options = Size 1000"
    and first: "upsert table (take 1000 input) onConflict db0 = (Responded None (Some c1), db1)"
    and second: "upsert table (drop 1000 input) onConflict db1 = (Responded None (Some c2), db2)"
    and cb: "\<forall>f \<in> set_option (Option.bind options onBatchComplete). \<forall>i ins t. f i ins t = None"
  shows "\<exists>evs. batchUpsert upsert db0 table input onConflict options
             = Some (Inr \<lparr>inserted = c1 + c2, errors = [], batchCount = 2\<rparr>, db2, evs)
           \<and> upsert_calls evs
               = [UpsertCall table (take 1000 input) onConflict,
                  UpsertCall table (drop 1000 input) onConflict]"
proof (cases "Option.bind options onBatchComplete")
  case None
  then show ?thesis
    using len first second
    by (simp add: batchUpsert_def chunkArray_with_def sz chunkArray_1500 try_chunk_def
          notify_batch_complete_def upsert_calls_def)
next
  case (Some f)
  with cb have "\<And>i ins t. f i ins t = None" by simp
  with Some show ?thesis
    using len first second
    by (simp add: batchUpsert_def chunkArray_with_def sz chunkArray_1500 try_chunk_def
          notify_batch_complete_def upsert_calls_def)
qed

lemma batchUpsert_abort:
  assumes nc: "\<not> continue_on_error options"
    and ne: "input \<noteq> []"
    and ch: "chunkArray_with input (batch_size_for table options) = Some chunks"
    and k: "k < length chunks"
    and before: "batchUpsert_loop upsert options table onConflict (length input) (length chunks) 0
                   (take k chunks)
                   \<lparr>st_inserted = 0, st_errors = [], st_db = db0, st_events = []\<rparr> = (None, stk)"
    and fails: "upsert table (chunks ! k) onConflict (st_db stk) = (Responded (Some msg) cnt, db')"
  shows "batchUpsert upsert db0 table input onConflict options
           = Some (Inl (batch_failed_message (k + 1) (length chunks) msg), db',
                   st_events stk @ [UpsertCall table (chunks ! k) onConflict])"
proof -
  have "batchUpsert_loop upsert options table onConflict (length input) (length chunks) 0 chunks
          \<lparr>st_inserted = 0, st_errors = [], st_db = db0, st_events = []\<rparr>
        = batchUpsert_loop upsert options table onConflict (length input) (length chunks) k
            ((chunks ! k) # drop (Suc k) chunks) stk"
    using batchUpsert_loop_at [OF k before] .
  also have "\<dots> = (Some (batch_failed_message (k + 1) (length chunks) msg),
                    stk\<lparr>st_db := db',
                         st_events := st_events stk @ [UpsertCall table (chunks ! k) onConflict],
                         st_errors := st_errors stk
                           @ [batch_failed_message (k + 1) (length chunks) msg]\<rparr>)"
    using nc fails by (simp add: try_chunk_def Let_def)
  finally show ?thesis
    using ne ch by (simp add: batchUpsert_def)
qed

lemma batchUpsert_continue:
  assumes c: "continue_on_error options"
    and ne: "input \<noteq> []"
    and ch: "chunkArray_with input (batch_size_for table options) = Some chunks"
  shows "\<exists>res db' evs.
           batchUpsert upsert db0 table input onConflict options = Some (Inr res, db', evs)
         \<and> batchCount res = length chunks
         \<and> upsert_calls evs = map (\<lambda>c. UpsertCall table c onConflict) chunks
         \<and> (\<forall>k msg cnt dbk. k < length chunks
              \<longrightarrow> upsert table (chunks ! k) onConflict
                    (st_db (snd (batchUpsert_loop upsert options table onConflict (length input)
                       (length chunks) 0 (take k chunks)
                       \<lparr>st_inserted = 0, st_errors = [], st_db = db0, st_events = []\<rparr>)))
                    = (Responded (Some msg) cnt, dbk)
              \<longrightarrow> batch_failed_message (k + 1) (length chunks) msg \<in> set (errors res))"
proof -
  let ?st0 = "\<lparr>st_inserted = 0, st_errors = [], st_db = db0, st_events = []\<rparr> :: ('a, 'b) upsert_state"
  let ?loop = "batchUpsert_loop upsert options table onConflict (length input) (length chunks)"
  obtain st where run: "?loop 0 chunks ?st0 = (None, st)"
    using loop_continue_all [OF c, of upsert table onConflict "length input" "length chunks" 0 chunks ?st0]
    by (cases "?loop 0 chunks ?st0") auto
  have calls: "upsert_calls (st_events st) = map (\<lambda>c. UpsertCall table c onConflict) chunks"
    using loop_continue_all [OF c, of upsert table onConflict "length input" "length chunks" 0 chunks ?st0] run
    by (simp add: upsert_calls_def)
  have collected: "batch_failed_message (k + 1) (length chunks) msg \<in> set (st_errors st)"
    if k: "k < length chunks"
      and fails: "upsert table (chunks ! k) onConflict (st_db (snd (?loop 0 (take k chunks) ?st0)))
                    = (Responded (Some msg) cnt, dbk)"
    for k msg cnt dbk
  proof -
    obtain stk where stk: "?loop 0 (take k chunks) ?st0 = (None, stk)"
      using loop_continue_all [OF c, of upsert table onConflict "length input" "length chunks" 0 "take k chunks" ?st0]
      by (cases "?loop 0 (take k chunks) ?st0") auto
    obtain r st1 where t: "try_chunk upsert options table onConflict (length input) (length chunks) k
                         (chunks ! k) stk = (r, st1)"
      by (cases "try_chunk upsert options table onConflict (length input) (length chunks) k (chunks ! k) stk")
    have in1: "batch_failed_message (k + 1) (length chunks) msg \<in> set (st_errors st1)"
      using t fails stk c
      by (auto simp: try_chunk_def notify_batch_complete_def Let_def split: option.splits)
    obtain st2 where one: "?loop k [chunks ! k] stk = (None, st2)"
      and in2: "batch_failed_message (k + 1) (length chunks) msg \<in> set (st_errors st2)"
      using t in1 c by (cases r) auto
    have "?loop 0 chunks ?st0 = ?loop k ([chunks ! k] @ drop (Suc k) chunks) stk"
      using batchUpsert_loop_at [OF k stk] by simp
    also have "\<dots> = ?loop (Suc k) (drop (Suc k) chunks) st2"
      using one by (simp only: batchUpsert_loop_append) simp
    finally have "?loop 0 chunks ?st0 = ?loop (Suc k) (drop (Suc k) chunks) st2" .
    with run have "?loop (Suc k) (drop (Suc k) chunks) st2 = (None, st)"
      by simp
    then have "st = snd (?loop (Suc k) (drop (Suc k) chunks) st2)"
      by simp
    then show ?thesis
      using in2 loop_continue_all [OF c, of upsert table onConflict "length input" "length chunks" "Suc k" "drop (Suc k) chunks" st2]
      by auto
  qed
  have "batchUpsert upsert db0 table input onConflict options
          = Some (Inr \<lparr>inserted = st_inserted st, errors = st_errors st,
                       batchCount = length chunks\<rparr>, st_db st, st_events st)"
    using run ne ch by (simp add: batchUpsert_def)
  moreover have "batchCount \<lparr>inserted = st_inserted st, errors = st_errors st,
                       batchCount = length chunks\<rparr> = length chunks"
    by simp
  moreover have "\<forall>k msg cnt dbk. k < length chunks
              \<longrightarrow> upsert table (chunks ! k) onConflict (st_db (snd (?loop 0 (take k chunks) ?st0)))
                    = (Responded (Some msg) cnt, dbk)
              \<longrightarrow> batch_failed_message (k + 1) (length chunks) msg
                    \<in> set (errors \<lparr>inserted = st_inserted st, errors = st_errors st,
                       batchCount = length chunks\<rparr>)"
    using collected by simp
  ultimately show ?thesis
    using calls by blast
qed


text \<open>
  Claim C4. batchUpsert on an empty row list returns {inserted: 0, errors: [], batchCount: 0}
  and calls neither the backend nor the callback. Over 1,500 rows with a batch size of 1,000
  (the size configured for the table, no other size being passed in the options) it issues
  exactly two upsert calls, the first 1,000 rows and then the last 500, and returns the sum
  of the two reported counts. For every batch size of at least 1 the rows are split into
  chunks whose concatenation is the row list, and: when continueOnError is not set and the
  upsert of chunk k+1 of n reports an error with message m (the chunks before it having
  been processed without a throw), the call throws the text "Batch ", the decimal numeral
  of k+1, "/", the decimal numeral of n, " failed: ", m, and that upsert is the last call
  made; with continueOnError set the call returns, every chunk has been sent to the backend
  in order, and that same text is in the returned error list for every chunk whose upsert
  reported an error. The decimal numeral of a number reads back as that number.
\<close>

theorem batchUpsert_contract:
  fixes upsert :: "('row, 'db) upsert_backend"
  shows "batchUpsert upsert db0 table [] onConflict options
           = Some (Inr \<lparr>inserted = 0, errors = [], batchCount = 0\<rparr>, db0, [])
       \<and> (length input = 1500 \<and> batch_size_for table options = Size 1000
            \<and> upsert table (take 1000 input) onConflict db0 = (Responded None (Some c1), db1)
            \<and> upsert table (drop 1000 input) onConflict db1 = (Responded None (Some c2), db2)
            \<and> (\<forall>f \<in> set_option (Option.bind options onBatchComplete).
                  \<forall>i ins t. f i ins t = None)
          \<longrightarrow> (\<exists>evs. batchUpsert upsert db0 table input onConflict options
                       = Some (Inr \<lparr>inserted = c1 + c2, errors = [], batchCount = 2\<rparr>, db2, evs)
                   \<and> upsert_calls evs
                       = [UpsertCall table (take 1000 input) onConflict,
                          UpsertCall table (drop 1000 input) onConflict]))
       \<and> (\<not> continue_on_error options \<and> input \<noteq> []
            \<and> batch_size_for table options = Size b \<and> 1 \<le> b
          \<longrightarrow> (\<exists>chunks. chunkArray input b = Some chunks \<and> concat chunks = input
                \<and> (\<forall>k stk msg cnt dbk. k < length chunks
                      \<and> batchUpsert_loop upsert options table onConflict (length input)
                           (length chunks) 0 (take k chunks)
                           \<lparr>st_inserted = 0, st_errors = [], st_db = db0, st_events = []\<rparr>
                          = (None, stk)
                      \<and> upsert table (chunks ! k) onConflict (st_db stk)
                          = (Responded (Some msg) cnt, dbk)
                    \<longrightarrow> batchUpsert upsert db0 table input onConflict options
                          = Some (Inl (''Batch '' @ decimal (k + 1) @ ''/''
                                         @ decimal (length chunks) @ '' failed: '' @ msg),
                                  dbk,
                                  st_events stk @ [UpsertCall table (chunks ! k) onConflict]))))
       \<and> (continue_on_error options \<and> input \<noteq> []
            \<and> batch_size_for table options = Size b \<and> 1 \<le> b
          \<longrightarrow> (\<exists>chunks res dbn evs.
                 chunkArray input b = Some chunks \<and> concat chunks = input
               \<and> batchUpsert upsert db0 table input onConflict options = Some (Inr res, dbn, evs)
               \<and> batchCount res = length chunks
               \<and> upsert_calls evs = map (\<lambda>c. UpsertCall table c onConflict) chunks
               \<and> (\<forall>j m c dbj. j < length chunks
                    \<longrightarrow> upsert table (chunks ! j) onConflict
                          (st_db (snd (batchUpsert_loop upsert options table onConflict
                             (length input) (length chunks) 0 (take j chunks)
                             \<lparr>st_inserted = 0, st_errors = [], st_db = db0, st_events = []\<rparr>)))
                          = (Responded (Some m) c, dbj)
                    \<longrightarrow> ''Batch '' @ decimal (j + 1) @ ''/'' @ decimal (length chunks)
                          @ '' failed: '' @ m \<in> set (errors res))))
       \<and> read_decimal (decimal n) = n"
proof (intro conjI impI)
  show "batchUpsert upsert db0 table [] onConflict options
          = Some (Inr \<lparr>inserted = 0, errors = [], batchCount = 0\<rparr>, db0, [])"
    by (rule batchUpsert_empty)
next
  assume "length input = 1500 \<and> batch_size_for table options = Size 1000
            \<and> upsert table (take 1000 input) onConflict db0 = (Responded None (Some c1), db1)
            \<and> upsert table (drop 1000 input) onConflict db1 = (Responded None (Some c2), db2)
            \<and> (\<forall>f \<in> set_option (Option.bind options onBatchComplete).
                  \<forall>i ins t. f i ins t = None)"
  then show "\<exists>evs. batchUpsert upsert db0 table input onConflict options
                       = Some (Inr \<lparr>inserted = c1 + c2, errors = [], batchCount = 2\<rparr>, db2, evs)
                   \<and> upsert_calls evs
                       = [UpsertCall table (take 1000 input) onConflict,
                          UpsertCall table (drop 1000 input) onConflict]"
    using batchUpsert_two_chunks [where upsert = upsert] by blast
next
  assume h: "\<not> continue_on_error options \<and> input \<noteq> []
            \<and> batch_size_for table options = Size b \<and> 1 \<le> b"
  then obtain chunks where c: "chunkArray input b = Some chunks" "concat chunks = input"
    using chunkArray_returns [of b input] by blast
  then have w: "chunkArray_with input (batch_size_for table options) = Some chunks"
    using h by (simp add: chunkArray_with_def)
  have "batchUpsert upsert db0 table input onConflict options
          = Some (Inl (''Batch '' @ decimal (k + 1) @ ''/'' @ decimal (length chunks)
                         @ '' failed: '' @ msg),
                  dbk, st_events stk @ [UpsertCall table (chunks ! k) onConflict])"
    if "k < length chunks"
      and "batchUpsert_loop upsert options table onConflict (length input) (length chunks) 0
             (take k chunks)
             \<lparr>st_inserted = 0, st_errors = [], st_db = db0, st_events = []\<rparr> = (None, stk)"
      and "upsert table (chunks ! k) onConflict (st_db stk) = (Responded (Some msg) cnt, dbk)"
    for k stk msg cnt dbk
    using batchUpsert_abort [OF _ _ w that] h by (simp add: batch_failed_message_def)
  with c show "\<exists>chunks. chunkArray input b = Some chunks \<and> concat chunks = input
                \<and> (\<forall>k stk msg cnt dbk. k < length chunks
                      \<and> batchUpsert_loop upsert options table onConflict (length input)
                           (length chunks) 0 (take k chunks)
                           \<lparr>st_inserted = 0, st_errors = [], st_db = db0, st_events = []\<rparr>
                          = (None, stk)
                      \<and> upsert table (chunks ! k) onConflict (st_db stk)
                          = (Responded (Some msg) cnt, dbk)
                    \<longrightarrow> batchUpsert upsert db0 table input onConflict options
                          = Some (Inl (''Batch '' @ decimal (k + 1) @ ''/''
                                         @ decimal (length chunks) @ '' failed: '' @ msg),
                                  dbk,
                                  st_events stk @ [UpsertCall table (chunks ! k) onConflict]))"
    by blast
next
  assume h: "continue_on_error options \<and> input \<noteq> []
            \<and> batch_size_for table options = Size b \<and> 1 \<le> b"
  then obtain chunks where c: "chunkArray input b = Some chunks" "concat chunks = input"
    using chunkArray_returns [of b input] by blast
  then have w: "chunkArray_with input (batch_size_for table options) = Some chunks"
    using h by (simp add: chunkArray_with_def)
  from batchUpsert_continue [OF _ _ w, of upsert db0 onConflict] h
  obtain res dbn evs where r:
    "batchUpsert upsert db0 table input onConflict options = Some (Inr res, dbn, evs)"
    "batchCount res = length chunks"
    "upsert_calls evs = map (\<lambda>c. UpsertCall table c onConflict) chunks"
    "\<forall>j m c dbj. j < length chunks
        \<longrightarrow> upsert table (chunks ! j) onConflict
              (st_db (snd (batchUpsert_loop upsert options table onConflict
                 (length input) (length chunks) 0 (take j chunks)
                 \<lparr>st_inserted = 0, st_errors = [], st_db = db0, st_events = []\<rparr>)))
              = (Responded (Some m) c, dbj)
        \<longrightarrow> ''Batch '' @ decimal (j + 1) @ ''/'' @ decimal (length chunks)
              @ '' failed: '' @ m \<in> set (errors res)"
    unfolding batch_failed_message_def by blast
  with c show "\<exists>chunks res dbn evs.
                 chunkArray input b = Some chunks \<and> concat chunks = input
               \<and> batchUpsert upsert db0 table input onConflict options = Some (Inr res, dbn, evs)
               \<and> batchCount res = length chunks
               \<and> upsert_calls evs = map (\<lambda>c. UpsertCall table c onConflict) chunks
               \<and> (\<forall>j m c dbj. j < length chunks
                    \<longrightarrow> upsert table (chunks ! j) onConflict
                          (st_db (snd (batchUpsert_loop upsert options table onConflict
                             (length input) (length chunks) 0 (take j chunks)
                             \<lparr>st_inserted = 0, st_errors = [], st_db = db0, st_events = []\<rparr>)))
                          = (Responded (Some m) c, dbj)
                    \<longrightarrow> ''Batch '' @ decimal (j + 1) @ ''/'' @ decimal (length chunks)
                          @ '' failed: '' @ m \<in> set (errors res))"
    by blast
next
  show "read_decimal (decimal n) = n"
    by (rule read_decimal_decimal)
qed

lemma batch_size_equity_bar_daily:
  "batch_size_for ''jquants_core.equity_bar_daily'' None = Size 1000"
  by (simp add: batch_size_for_def BATCH_SIZES_def)

lemma batch_size_inherited_property:
  "batch_size_for ''public.toString'' None = InheritedProperty
   \<and> chunkArray_with [1, 2, 3 :: nat] InheritedProperty = Some [[]]"
  by (simp add: batch_size_for_def BATCH_SIZES_def OBJECT_PROTOTYPE_KEYS_def chunkArray_with_def)

lemma chunkArray_five_by_two: "chunkArray [1, 2, 3, 4, 5 :: nat] 2 = Some [[1, 2], [3, 4], [5]]"
  by (simp add: chunkArray_def chunkArray_loop.simps slice_def)

lemma chunkArray_twelve_by_one:
  "chunkArray [1, 2, 3, 4, 5, 6, 7, 8, 9, 10, 11, 12 :: nat] 1
     = Some [[1], [2], [3], [4], [5], [6], [7], [8], [9], [10], [11], [12]]"
  by (simp add: chunkArray_def chunkArray_loop.simps slice_def)

theorem batchUpsert_contract_witness:
  "batchUpsert counting_backend 0 ''jquants_core.equity_bar_daily'' (replicate 1500 (7::nat))
      ''local_code,trade_date,session'' None
     = Some (Inr \<lparr>inserted = 1500, errors = [], batchCount = 2\<rparr>, 2,
         [UpsertCall ''jquants_core.equity_bar_daily'' (replicate 1000 7) ''local_code,trade_date,session'',
          UpsertCall ''jquants_core.equity_bar_daily'' (replicate 500 7) ''local_code,trade_date,session''])
   \<and> batchUpsert (failing_backend 1 ''boom'') 0 ''t'' [1, 2, 3, 4, 5]
        ''id'' (Some \<lparr>batchSize = Some 2, continueOnError = None, onBatchComplete = None\<rparr>)
      = Some (Inl ''Batch 2/3 failed: boom'', 2,
              [UpsertCall ''t'' [1, 2] ''id'', UpsertCall ''t'' [3, 4] ''id''])
   \<and> batchUpsert (failing_backend 9 ''timeout'') 0 ''t'' [1, 2, 3, 4, 5, 6, 7, 8, 9, 10, 11, 12]
        ''id'' (Some \<lparr>batchSize = Some 1, continueOnError = Some False, onBatchComplete = None\<rparr>)
      = Some (Inl ''Batch 10/12 failed: timeout'', 10,
              [UpsertCall ''t'' [1] ''id'', UpsertCall ''t'' [2] ''id'', UpsertCall ''t'' [3] ''id'', UpsertCall ''t'' [4] ''id'', UpsertCall ''t'' [5] ''id'', UpsertCall ''t'' [6] ''id'', UpsertCall ''t'' [7] ''id'', UpsertCall ''t'' [8] ''id'', UpsertCall ''t'' [9] ''id'', UpsertCall ''t'' [10] ''id''])
   \<and> batchUpsert (failing_backend 1 ''boom'') 0 ''t'' [1, 2, 3, 4, 5]
        ''id'' (Some \<lparr>batchSize = Some 2, continueOnError = Some True, onBatchComplete = None\<rparr>)
      = Some (Inr \<lparr>inserted = 3, errors = [''Batch 2/3 failed: boom''], batchCount = 3\<rparr>, 3,
          [UpsertCall ''t'' [1, 2] ''id'', UpsertCall ''t'' [3, 4] ''id'', UpsertCall ''t'' [5] ''id''])
   \<and> decimal 1500 = ''1500'' \<and> read_decimal ''1500'' = 1500"
proof -
  let ?t = "''jquants_core.equity_bar_daily''" and ?k = "''local_code,trade_date,session''"
  let ?abort = "Some \<lparr>batchSize = Some 2, continueOnError = None, onBatchComplete = None\<rparr>"
  let ?abort1 = "Some \<lparr>batchSize = Some 1, continueOnError = Some False, onBatchComplete = None\<rparr>"
  let ?cont = "Some \<lparr>batchSize = Some 2, continueOnError = Some True, onBatchComplete = None\<rparr>"
  let ?five = "[1, 2, 3, 4, 5] :: nat list"
  let ?twelve = "[1, 2, 3, 4, 5, 6, 7, 8, 9, 10, 11, 12] :: nat list"
  have two: "\<exists>evs. batchUpsert counting_backend 0 ?t (replicate 1500 (7::nat)) ?k None
               = Some (Inr \<lparr>inserted = 1000 + 500, errors = [], batchCount = 2\<rparr>, 2, evs)
             \<and> upsert_calls evs = [UpsertCall ?t (take 1000 (replicate 1500 7)) ?k,
                                   UpsertCall ?t (drop 1000 (replicate 1500 7)) ?k]"
    using batchUpsert_contract [where upsert = counting_backend and ?db0.0 = 0 and table = ?t
        and input = "replicate 1500 (7::nat)" and onConflict = ?k and options = None
        and ?c1.0 = 1000 and ?db1.0 = 1 and ?c2.0 = 500 and ?db2.0 = 2] batch_size_equity_bar_daily
    by (simp add: counting_backend_def)
  have abort: "batchUpsert (failing_backend 1 ''boom'') 0 ''t'' ?five ''id'' ?abort
      = Some (Inl ''Batch 2/3 failed: boom'', 2,
              [UpsertCall ''t'' [1, 2] ''id'', UpsertCall ''t'' [3, 4] ''id''])"
  proof -
    have hyp: "\<not> continue_on_error ?abort \<and> ?five \<noteq> []
                 \<and> batch_size_for ''t'' ?abort = Size 2 \<and> (1::int) \<le> 2"
      by (simp add: batch_size_for_def continue_on_error_def)
    from batchUpsert_contract [where upsert = "failing_backend 1 ''boom''" and ?db0.0 = 0
        and table = "''t''" and input = ?five and onConflict = "''id''" and options = ?abort
        and b = 2] hyp
    obtain chunks where c: "chunkArray ?five 2 = Some chunks"
      and fails: "\<forall>k stk msg cnt dbk. k < length chunks
          \<and> batchUpsert_loop (failing_backend 1 ''boom'') ?abort ''t'' ''id'' (length ?five)
               (length chunks) 0 (take k chunks)
               \<lparr>st_inserted = 0, st_errors = [], st_db = 0, st_events = []\<rparr> = (None, stk)
          \<and> failing_backend 1 ''boom'' ''t'' (chunks ! k) ''id'' (st_db stk)
              = (Responded (Some msg) cnt, dbk)
        \<longrightarrow> batchUpsert (failing_backend 1 ''boom'') 0 ''t'' ?five ''id'' ?abort
              = Some (Inl (''Batch '' @ decimal (k + 1) @ ''/'' @ decimal (length chunks)
                             @ '' failed: '' @ msg),
                      dbk, st_events stk @ [UpsertCall ''t'' (chunks ! k) ''id''])"
      by blast
    from c have chunks: "chunks = [[1, 2], [3, 4], [5]]"
      using chunkArray_five_by_two by simp
    from fails [rule_format, of 1
        "\<lparr>st_inserted = 2, st_errors = [], st_db = 1, st_events = [UpsertCall ''t'' [1, 2] ''id'']\<rparr>"
        "''boom''" None 2]
    show ?thesis
      by (simp add: chunks failing_backend_def continue_on_error_def try_chunk_def
            notify_batch_complete_def decimal.simps digit_char_def)
  qed
  have abort1: "batchUpsert (failing_backend 9 ''timeout'') 0 ''t'' ?twelve ''id'' ?abort1
      = Some (Inl ''Batch 10/12 failed: timeout'', 10,
              [UpsertCall ''t'' [1] ''id'', UpsertCall ''t'' [2] ''id'', UpsertCall ''t'' [3] ''id'', UpsertCall ''t'' [4] ''id'', UpsertCall ''t'' [5] ''id'', UpsertCall ''t'' [6] ''id'', UpsertCall ''t'' [7] ''id'', UpsertCall ''t'' [8] ''id'', UpsertCall ''t'' [9] ''id'', UpsertCall ''t'' [10] ''id''])"
  proof -
    have hyp: "\<not> continue_on_error ?abort1 \<and> ?twelve \<noteq> []
                 \<and> batch_size_for ''t'' ?abort1 = Size 1 \<and> (1::int) \<le> 1"
      by (simp add: batch_size_for_def continue_on_error_def)
    from batchUpsert_contract [where upsert = "failing_backend 9 ''timeout''" and ?db0.0 = 0
        and table = "''t''" and input = ?twelve and onConflict = "''id''" and options = ?abort1
        and b = 1] hyp
    obtain chunks where c: "chunkArray ?twelve 1 = Some chunks"
      and fails: "\<forall>k stk msg cnt dbk. k < length chunks
          \<and> batchUpsert_loop (failing_backend 9 ''timeout'') ?abort1 ''t'' ''id'' (length ?twelve)
               (length chunks) 0 (take k chunks)
               \<lparr>st_inserted = 0, st_errors = [], st_db = 0, st_events = []\<rparr> = (None, stk)
          \<and> failing_backend 9 ''timeout'' ''t'' (chunks ! k) ''id'' (st_db stk)
              = (Responded (Some msg) cnt, dbk)
        \<longrightarrow> batchUpsert (failing_backend 9 ''timeout'') 0 ''t'' ?twelve ''id'' ?abort1
              = Some (Inl (''Batch '' @ decimal (k + 1) @ ''/'' @ decimal (length chunks)
                             @ '' failed: '' @ msg),
                      dbk, st_events stk @ [UpsertCall ''t'' (chunks ! k) ''id''])"
      by blast
    from c have chunks: "chunks = [[1], [2], [3], [4], [5], [6], [7], [8], [9], [10], [11], [12]]"
      using chunkArray_twelve_by_one by simp
    from fails [rule_format, of 9
        "\<lparr>st_inserted = 9, st_errors = [], st_db = 9,
          st_events = [UpsertCall ''t'' [1] ''id'', UpsertCall ''t'' [2] ''id'', UpsertCall ''t'' [3] ''id'', UpsertCall ''t'' [4] ''id'', UpsertCall ''t'' [5] ''id'', UpsertCall ''t'' [6] ''id'', UpsertCall ''t'' [7] ''id'', UpsertCall ''t'' [8] ''id'', UpsertCall ''t'' [9] ''id'']\<rparr>"
        "''timeout''" None 10]
    show ?thesis
      by (simp add: chunks failing_backend_def continue_on_error_def try_chunk_def
            notify_batch_complete_def decimal.simps digit_char_def)
  qed
  have cont: "batchUpsert (failing_backend 1 ''boom'') 0 ''t'' ?five ''id'' ?cont
      = Some (Inr \<lparr>inserted = 3, errors = [''Batch 2/3 failed: boom''], batchCount = 3\<rparr>, 3,
          [UpsertCall ''t'' [1, 2] ''id'', UpsertCall ''t'' [3, 4] ''id'', UpsertCall ''t'' [5] ''id''])
       \<and> ''Batch 2/3 failed: boom'' \<in> set [''Batch 2/3 failed: boom'']"
  proof -
    have hyp: "continue_on_error ?cont \<and> ?five \<noteq> []
                 \<and> batch_size_for ''t'' ?cont = Size 2 \<and> (1::int) \<le> 2"
      by (simp add: batch_size_for_def continue_on_error_def)
    note contract = batchUpsert_contract [where upsert = "failing_backend 1 ''boom''"
        and ?db0.0 = 0 and table = "''t''" and input = ?five and onConflict = "''id''"
        and options = ?cont and b = 2]
    from contract [THEN conjunct2, THEN conjunct2, THEN conjunct2, THEN conjunct1, THEN mp, OF hyp]
    obtain chunks res dbn evs where c: "chunkArray ?five 2 = Some chunks"
      and r: "batchUpsert (failing_backend 1 ''boom'') 0 ''t'' ?five ''id'' ?cont
                = Some (Inr res, dbn, evs)"
        "batchCount res = length chunks"
        "upsert_calls evs = map (\<lambda>c. UpsertCall ''t'' c ''id'') chunks"
      and collected: "\<forall>j m c dbj. j < length chunks
          \<longrightarrow> failing_backend 1 ''boom'' ''t'' (chunks ! j) ''id''
                (st_db (snd (batchUpsert_loop (failing_backend 1 ''boom'') ?cont ''t'' ''id''
                   (length ?five) (length chunks) 0 (take j chunks)
                   \<lparr>st_inserted = 0, st_errors = [], st_db = 0, st_events = []\<rparr>)))
                = (Responded (Some m) c, dbj)
          \<longrightarrow> ''Batch '' @ decimal (j + 1) @ ''/'' @ decimal (length chunks)
                @ '' failed: '' @ m \<in> set (errors res)"
      by blast
    from c have chunks: "chunks = [[1, 2], [3, 4], [5]]"
      using chunkArray_five_by_two by simp
    from collected [rule_format, of 1 "''boom''" None 2]
    have listed: "''Batch 2/3 failed: boom'' \<in> set (errors res)"
      by (simp add: chunks failing_backend_def try_chunk_def continue_on_error_def
            notify_batch_complete_def decimal.simps digit_char_def)
    have run: "batchUpsert (failing_backend 1 ''boom'') 0 ''t'' ?five ''id'' ?cont
      = Some (Inr \<lparr>inserted = 3, errors = [''Batch 2/3 failed: boom''], batchCount = 3\<rparr>, 3,
          [UpsertCall ''t'' [1, 2] ''id'', UpsertCall ''t'' [3, 4] ''id'', UpsertCall ''t'' [5] ''id''])"
      using chunkArray_five_by_two
      by (simp add: batchUpsert_def chunkArray_with_def failing_backend_def batch_size_for_def
            continue_on_error_def try_chunk_def notify_batch_complete_def batch_failed_message_def
            decimal.simps digit_char_def)
    with r(1) listed show ?thesis by simp
  qed
  have run_two: "batchUpsert counting_backend 0 ?t (replicate 1500 (7::nat)) ?k None
     = Some (Inr \<lparr>inserted = 1500, errors = [], batchCount = 2\<rparr>, 2,
         [UpsertCall ?t (replicate 1000 7) ?k, UpsertCall ?t (replicate 500 7) ?k])"
    by (simp add: batchUpsert_def chunkArray_with_def batch_size_equity_bar_daily chunkArray_1500
          counting_backend_def try_chunk_def notify_batch_complete_def)
  have dec: "decimal 1500 = ''1500''"
    by (simp add: decimal.simps digit_char_def)
  have "read_decimal (decimal 1500) = 1500"
    using batchUpsert_contract [where upsert = counting_backend and n = 1500] by blast
  with dec have "read_decimal ''1500'' = 1500" by simp
  with two abort abort1 cont run_two dec show ?thesis by simp
qed

section \<open>Properties of the Cron B entrypoint\<close>

lemma try_block_no_release: "\<not> list_ex is_release (fst (try_block env))"
  by (simp add: try_block_def Let_def split: sum.splits option.splits)

lemma catch_block_no_release: "\<not> list_ex is_release (fst (catch_block env m rid))"
  by (simp add: catch_block_def)

lemma try_block_release_indep: "try_block (env\<lparr>releaseOutcome := r\<rparr>) = try_block env"
  by (simp add: try_block_def Let_def split: sum.split option.split)

lemma catch_block_release_indep: "catch_block (env\<lparr>releaseOutcome := r\<rparr>) m rid = catch_block env m rid"
  by (simp add: catch_block_def)

text \<open>
  Claim C9. In every execution of the Cron B entrypoint in which authentication passes and
  acquireLock succeeds, the handler returns a response, releaseLock is called with the
  job name and the token of the acquisition, as the last call and only once, whatever
  path the execution takes (normal completion, a failure reported by the handler, the
  "already executed" early return, an exception thrown by any awaited call), and a
  failure of the release changes neither the calls nor the response.
\<close>

theorem POST_releases_lock:
  assumes "authError env = None" and "acquireOutcome env = Inr lockResult"
    and "success lockResult"
  shows "\<exists>events response.
           POST env = (events @ [ReleaseLock JOB_NAME (token lockResult)], Inr response)
         \<and> \<not> list_ex is_release events
         \<and> (\<forall>r. POST (env\<lparr>releaseOutcome := r\<rparr>) = POST env)"
proof -
  obtain tryEvents tried where t: "try_block env = (tryEvents, tried)"
    by (cases "try_block env")
  obtain catchEvents response where c:
    "(case tried of Inr returned \<Rightarrow> ([], returned)
      | Inl (errorMessage, rid) \<Rightarrow> catch_block env errorMessage rid) = (catchEvents, response)"
    by (cases "case tried of Inr returned \<Rightarrow> ([], returned)
      | Inl (errorMessage, rid) \<Rightarrow> catch_block env errorMessage rid")
  let ?events = "AcquireLock JOB_NAME LOCK_TTL_SECONDS # tryEvents @ catchEvents"
  have run: "POST env = (?events @ [ReleaseLock JOB_NAME (token lockResult)], Inr response)"
    using assms t c by (simp add: POST_def)
  have "\<not> list_ex is_release tryEvents"
    using try_block_no_release [of env] t by simp
  moreover have "\<not> list_ex is_release catchEvents"
  proof (cases tried)
    case (Inl thrown)
    then have "catchEvents = fst (catch_block env (fst thrown) (snd thrown))"
      using c by (simp add: case_prod_beta)
    then show ?thesis
      using catch_block_no_release by simp
  next
    case (Inr returned)
    then show ?thesis using c by auto
  qed
  ultimately have none: "\<not> list_ex is_release ?events"
    by simp
  have "POST (env\<lparr>releaseOutcome := r\<rparr>) = POST env" for r
    using assms
    by (simp add: POST_def try_block_release_indep catch_block_release_indep Let_def
          split: sum.split prod.split)
  with run none show ?thesis by blast
qed


theorem POST_releases_lock_witness:
  "POST env_normal
     = ([AcquireLock ''cron_b'' 60, StartJobRun ''cron_b'',
         UpdateHeartbeat ''cron_b'' Running ''run-1'' None None, HandleCronB ''run-1'',
         CompleteJobRun ''run-1'' Success None,
         UpdateHeartbeat ''cron_b'' Success ''run-1'' (Some ''2024-01-16'') None,
         ReleaseLock ''cron_b'' (Some ''token-1'')],
        Inr \<lparr>status = 200, body = Completed True ''run-1'' (Some ''2024-01-16'') 3 3 None\<rparr>)
   \<and> POST env_handler_failed
     = ([AcquireLock ''cron_b'' 60, StartJobRun ''cron_b'',
         UpdateHeartbeat ''cron_b'' Running ''run-1'' None None, HandleCronB ''run-1'',
         CompleteJobRun ''run-1'' Failed (Some ''API timeout''),
         UpdateHeartbeat ''cron_b'' Failed ''run-1'' None (Some ''API timeout''),
         ReleaseLock ''cron_b'' (Some ''token-1'')],
        Inr \<lparr>status = 200, body = Completed False ''run-1'' None 0 0 (Some ''API timeout'')\<rparr>)
   \<and> POST env_already_executed
     = ([AcquireLock ''cron_b'' 60, StartJobRun ''cron_b'', ReleaseLock ''cron_b'' (Some ''token-1'')],
        Inr \<lparr>status = 200,
            body = JobAlreadyExecuted (Some ''Job already executed for this target date'')\<rparr>)
   \<and> POST env_handler_throws
     = ([AcquireLock ''cron_b'' 60, StartJobRun ''cron_b'',
         UpdateHeartbeat ''cron_b'' Running ''run-1'' None None, HandleCronB ''run-1'',
         CompleteJobRun ''run-1'' Failed (Some ''Network error''),
         UpdateHeartbeat ''cron_b'' Failed ''run-1'' None (Some ''Network error''),
         ReleaseLock ''cron_b'' (Some ''token-1'')],
        Inr \<lparr>status = 500, body = InternalServerError None (Some ''run-1'')\<rparr>)
   \<and> (\<forall>r. POST (env_handler_throws\<lparr>releaseOutcome := r\<rparr>) = POST env_handler_throws)"
proof -
  let ?lock = "\<lparr>success = True, token = Some ''token-1'', error = None\<rparr>"
  have runs:
    "POST env_normal
     = ([AcquireLock ''cron_b'' 60, StartJobRun ''cron_b'',
         UpdateHeartbeat ''cron_b'' Running ''run-1'' None None, HandleCronB ''run-1'',
         CompleteJobRun ''run-1'' Success None,
         UpdateHeartbeat ''cron_b'' Success ''run-1'' (Some ''2024-01-16'') None,
         ReleaseLock ''cron_b'' (Some ''token-1'')],
        Inr \<lparr>status = 200, body = Completed True ''run-1'' (Some ''2024-01-16'') 3 3 None\<rparr>)"
    "POST env_handler_failed
     = ([AcquireLock ''cron_b'' 60, StartJobRun ''cron_b'',
         UpdateHeartbeat ''cron_b'' Running ''run-1'' None None, HandleCronB ''run-1'',
         CompleteJobRun ''run-1'' Failed (Some ''API timeout''),
         UpdateHeartbeat ''cron_b'' Failed ''run-1'' None (Some ''API timeout''),
         ReleaseLock ''cron_b'' (Some ''token-1'')],
        Inr \<lparr>status = 200, body = Completed False ''run-1'' None 0 0 (Some ''API timeout'')\<rparr>)"
    "POST env_already_executed
     = ([AcquireLock ''cron_b'' 60, StartJobRun ''cron_b'', ReleaseLock ''cron_b'' (Some ''token-1'')],
        Inr \<lparr>status = 200,
            body = JobAlreadyExecuted (Some ''Job already executed for this target date'')\<rparr>)"
    "POST env_handler_throws
     = ([AcquireLock ''cron_b'' 60, StartJobRun ''cron_b'',
         UpdateHeartbeat ''cron_b'' Running ''run-1'' None None, HandleCronB ''run-1'',
         CompleteJobRun ''run-1'' Failed (Some ''Network error''),
         UpdateHeartbeat ''cron_b'' Failed ''run-1'' None (Some ''Network error''),
         ReleaseLock ''cron_b'' (Some ''token-1'')],
        Inr \<lparr>status = 500, body = InternalServerError None (Some ''run-1'')\<rparr>)"
    by (simp_all add: POST_def try_block_def catch_block_def env_normal_def env_handler_failed_def
          env_already_executed_def env_handler_throws_def JOB_NAME_def LOCK_TTL_SECONDS_def
          truthy_def truthy_opt_def Let_def)
  have "authError env_handler_throws = None"
    and "acquireOutcome env_handler_throws = Inr ?lock" and "success ?lock"
    by (simp_all add: env_handler_throws_def env_normal_def)
  from POST_releases_lock [OF this]
  have "\<forall>r. POST (env_handler_throws\<lparr>releaseOutcome := r\<rparr>) = POST env_handler_throws"
    by blast
  with runs show ?thesis by blast
qed

section \<open>Properties of the job-run ledger\<close>





lemma startJobRun_without_target_date_repeats:
  assumes "jobName params \<in> set job_names" and "targetDate params = None"
    and "\<forall>r \<in> set rows. run_id r \<noteq> uuid"
  shows "\<exists>new. startJobRun None uuid now rows params
                 = (\<lparr>runId = uuid, startError = None\<rparr>, rows @ [new])"
  using assms by (auto simp: startJobRun_def insert_job_run_def Let_def)




lemma truncateErrorMessage_long:
  "length msg > 10000 \<Longrightarrow> truncateErrorMessage msg = take 10000 msg @ ''... (truncated)''"
  by (simp add: truncateErrorMessage_def MAX_ERROR_MESSAGE_LENGTH_def)

lemma truncateErrorMessage_short:
  "length msg \<le> 10000 \<Longrightarrow> truncateErrorMessage msg = msg"
  by (simp add: truncateErrorMessage_def MAX_ERROR_MESSAGE_LENGTH_def)

lemma completeJobRun_rows:
  "snd (completeJobRun None now rows rid final errorMessage) ! i
     = (if run_id (rows ! i) = rid
        then (rows ! i)\<lparr>run_status := final, finished_at := Some now,
                        error_message := map_option truncateErrorMessage errorMessage\<rparr>
        else rows ! i)"
  if "i < length rows"
  using that by (simp add: completeJobRun_def update_job_run_def)

text \<open>
  Claim C7. For every run id, status and error message, completeJobRun returns normally
  (no exception leaves it), also when the storage reports an error, in which case the
  table is as before. When the storage works, the row of the run gets the status, the
  finished-at time and the stored error message, and every other row is unchanged. The
  stored message is the given one when it has at most 10,000 characters, and otherwise
  its first 10,000 characters followed by "... (truncated)".
\<close>

theorem completeJobRun_contract:
  "fst (completeJobRun fault now rows rid final errorMessage) = None
   \<and> (fault \<noteq> None \<longrightarrow> snd (completeJobRun fault now rows rid final errorMessage) = rows)
   \<and> length (snd (completeJobRun None now rows rid final errorMessage)) = length rows
   \<and> (\<forall>i < length rows.
         snd (completeJobRun None now rows rid final errorMessage) ! i
           = (if run_id (rows ! i) = rid
              then (rows ! i)\<lparr>run_status := final, finished_at := Some now,
                              error_message := map_option truncateErrorMessage errorMessage\<rparr>
              else rows ! i))
   \<and> (length msg > 10000 \<longrightarrow> truncateErrorMessage msg = take 10000 msg @ ''... (truncated)'')
   \<and> (length msg \<le> 10000 \<longrightarrow> truncateErrorMessage msg = msg)"
proof -
  have "fst (completeJobRun fault now rows rid final errorMessage) = None"
    by (simp add: completeJobRun_def split: option.split)
  moreover have "fault \<noteq> None \<longrightarrow> snd (completeJobRun fault now rows rid final errorMessage) = rows"
    by (auto simp: completeJobRun_def)
  moreover have "length (snd (completeJobRun None now rows rid final errorMessage)) = length rows"
    by (simp add: completeJobRun_def update_job_run_def)
  ultimately show ?thesis
    using completeJobRun_rows truncateErrorMessage_long truncateErrorMessage_short by blast
qed

theorem completeJobRun_contract_witness:
  "completeJobRun None 1705312860000
     [\<lparr>run_id = ''run-1'', job_name = ''cron_a'', target_date = Some ''2024-01-15'',
       run_status = Running, started_at = 1705312800000, finished_at = None,
       error_message = None, meta = []\<rparr>]
     ''run-1'' Failed (Some (replicate 15000 CHR ''x''))
   = (None,
      [\<lparr>run_id = ''run-1'', job_name = ''cron_a'', target_date = Some ''2024-01-15'',
        run_status = Failed, started_at = 1705312800000, finished_at = Some 1705312860000,
        error_message = Some (replicate 10000 CHR ''x'' @ ''... (truncated)''), meta = []\<rparr>])
   \<and> completeJobRun (Some \<lparr>code = ''P0001'', message = ''DB Error''\<rparr>) 1705312860000
     [\<lparr>run_id = ''run-1'', job_name = ''cron_a'', target_date = Some ''2024-01-15'',
       run_status = Running, started_at = 1705312800000, finished_at = None,
       error_message = None, meta = []\<rparr>]
     ''run-1'' Success None
   = (None,
      [\<lparr>run_id = ''run-1'', job_name = ''cron_a'', target_date = Some ''2024-01-15'',
        run_status = Running, started_at = 1705312800000, finished_at = None,
        error_message = None, meta = []\<rparr>])"
proof -
  let ?row = "\<lparr>run_id = ''run-1'', job_name = ''cron_a'', target_date = Some ''2024-01-15'',
       run_status = Running, started_at = 1705312800000, finished_at = None,
       error_message = None, meta = []\<rparr>"
  let ?long = "replicate 15000 CHR ''x''"
  let ?fault = "Some \<lparr>code = ''P0001'', message = ''DB Error''\<rparr>"
  note ok = completeJobRun_contract [of None 1705312860000 "[?row]" "''run-1''" Failed
      "Some ?long" ?long]
  note failed = completeJobRun_contract [of ?fault 1705312860000 "[?row]" "''run-1''" Success
      None "[]"]
  have cut: "truncateErrorMessage ?long = replicate 10000 CHR ''x'' @ ''... (truncated)''"
    using ok by simp
  have "fst (completeJobRun None 1705312860000 [?row] ''run-1'' Failed (Some ?long)) = None"
    using ok by blast
  moreover have "snd (completeJobRun None 1705312860000 [?row] ''run-1'' Failed (Some ?long))
      = [?row\<lparr>run_status := Failed, finished_at := Some 1705312860000,
               error_message := Some (replicate 10000 CHR ''x'' @ ''... (truncated)'')\<rparr>]"
  proof -
    have "length (snd (completeJobRun None 1705312860000 [?row] ''run-1'' Failed (Some ?long))) = 1"
      using ok by simp
    moreover have "snd (completeJobRun None 1705312860000 [?row] ''run-1'' Failed (Some ?long)) ! 0
       = ?row\<lparr>run_status := Failed, finished_at := Some 1705312860000,
               error_message := Some (replicate 10000 CHR ''x'' @ ''... (truncated)'')\<rparr>"
      using ok cut by simp
    ultimately show ?thesis
      by (cases "snd (completeJobRun None 1705312860000 [?row] ''run-1'' Failed (Some ?long))") auto
  qed
  moreover have "completeJobRun ?fault 1705312860000 [?row] ''run-1'' Success None = (None, [?row])"
    using failed by (simp add: prod_eq_iff)
  ultimately show ?thesis
    by (simp add: prod_eq_iff)
qed

section \<open>Properties of the health check\<close>

text \<open>
  Claim C6. isJobHealthy, as a function of the current time, the heartbeat record and
  the threshold (25 hours when omitted): without a record the result is unhealthy with
  the reason "No heartbeat record found"; a record whose last status is \<open>failed\<close> is
  unhealthy whatever its age; a record older than the threshold is unhealthy whatever its
  status; a record newer than the threshold whose last status is not \<open>failed\<close>,
  \<open>running\<close> included, is healthy.
\<close>

theorem isJobHealthy_cases:
  fixes hb :: HeartbeatRecord
  defines "limit h \<equiv> (case h of Some t \<Rightarrow> t | None \<Rightarrow> 25) * 3600000"
  shows "isJobHealthy now None h = \<lparr>healthy = False, reason = Some ''No heartbeat record found''\<rparr>
       \<and> (last_status hb = Failed \<longrightarrow> \<not> healthy (isJobHealthy now (Some hb) h))
       \<and> (now - last_seen_at hb > limit h \<longrightarrow> \<not> healthy (isJobHealthy now (Some hb) h))
       \<and> (now - last_seen_at hb < limit h \<and> last_status hb \<noteq> Failed
            \<longrightarrow> isJobHealthy now (Some hb) h = \<lparr>healthy = True, reason = None\<rparr>)
       \<and> (now - last_seen_at hb < limit h \<and> last_status hb = Running
            \<longrightarrow> healthy (isJobHealthy now (Some hb) h))"
  by (auto simp: isJobHealthy_def limit_def DEFAULT_STALE_HOURS_def MS_PER_HOUR_def Let_def
           split: option.splits)

theorem isJobHealthy_cases_witness:
  "isJobHealthy 1705312800000
     (Some \<lparr>heartbeat_job_name = ''cron_a'', last_seen_at = 1705309200000, last_status = Failed,
            last_run_id = Some ''run-123'', last_target_date = Some ''2024-01-15'',
            last_error = Some ''API timeout'', heartbeat_meta = []\<rparr>) None
     = \<lparr>healthy = False, reason = Some ''Last run failed: API timeout''\<rparr>
   \<and> isJobHealthy 1705312800000
     (Some \<lparr>heartbeat_job_name = ''cron_a'', last_seen_at = 1705219200000, last_status = Success,
            last_run_id = Some ''run-123'', last_target_date = Some ''2024-01-14'',
            last_error = None, heartbeat_meta = []\<rparr>) None
     = \<lparr>healthy = False, reason = Some ''Stale: last seen 26 hours ago''\<rparr>
   \<and> isJobHealthy 1705312800000
     (Some \<lparr>heartbeat_job_name = ''cron_a'', last_seen_at = 1705311000000, last_status = Running,
            last_run_id = Some ''run-123'', last_target_date = Some ''2024-01-15'',
            last_error = None, heartbeat_meta = []\<rparr>) None
     = \<lparr>healthy = True, reason = None\<rparr>
   \<and> \<not> healthy (isJobHealthy 1705312800000
     (Some \<lparr>heartbeat_job_name = ''cron_a'', last_seen_at = 1705305600000, last_status = Success,
            last_run_id = Some ''run-123'', last_target_date = Some ''2024-01-15'',
            last_error = None, heartbeat_meta = []\<rparr>) (Some 1))"
proof -
  let ?failed = "\<lparr>heartbeat_job_name = ''cron_a'', last_seen_at = 1705309200000, last_status = Failed,
            last_run_id = Some ''run-123'', last_target_date = Some ''2024-01-15'',
            last_error = Some ''API timeout'', heartbeat_meta = []\<rparr>"
  let ?old = "\<lparr>heartbeat_job_name = ''cron_a'', last_seen_at = 1705219200000, last_status = Success,
            last_run_id = Some ''run-123'', last_target_date = Some ''2024-01-14'',
            last_error = None, heartbeat_meta = []\<rparr>"
  let ?running = "\<lparr>heartbeat_job_name = ''cron_a'', last_seen_at = 1705311000000, last_status = Running,
            last_run_id = Some ''run-123'', last_target_date = Some ''2024-01-15'',
            last_error = None, heartbeat_meta = []\<rparr>"
  let ?two_hours = "\<lparr>heartbeat_job_name = ''cron_a'', last_seen_at = 1705305600000, last_status = Success,
            last_run_id = Some ''run-123'', last_target_date = Some ''2024-01-15'',
            last_error = None, heartbeat_meta = []\<rparr>"
  have "\<not> healthy (isJobHealthy 1705312800000 (Some ?failed) None)"
    using isJobHealthy_cases [of 1705312800000 None ?failed] by simp
  moreover have "\<not> healthy (isJobHealthy 1705312800000 (Some ?old) None)"
    using isJobHealthy_cases [of 1705312800000 None ?old] by simp
  moreover have "isJobHealthy 1705312800000 (Some ?running) None = \<lparr>healthy = True, reason = None\<rparr>"
    using isJobHealthy_cases [of 1705312800000 None ?running] by simp
  moreover have "\<not> healthy (isJobHealthy 1705312800000 (Some ?two_hours) (Some 1))"
    using isJobHealthy_cases [of 1705312800000 "Some 1" ?two_hours] by simp
  moreover have "reason (isJobHealthy 1705312800000 (Some ?failed) None)
                   = Some ''Last run failed: API timeout''"
    "reason (isJobHealthy 1705312800000 (Some ?old) None) = Some ''Stale: last seen 26 hours ago''"
    by (simp_all add: isJobHealthy_def DEFAULT_STALE_HOURS_def MS_PER_HOUR_def show_int_def
          decimal.simps digit_char_def)
  ultimately show ?thesis
    by (simp add: HealthResult.equality)
qed

section \<open>Properties of the paginated fetch\<close>

text \<open>
  Claim C8. For every fetch whose first response carries a page token and whose second
  response, to the call with that token, omits it: the fetch returns, exactly two HTTP
  calls are made (the first without a token, the second with the token of the first
  page), the accumulated result is the items of the first page followed by the items of
  the second, and each page is yielded before the next call is made.
\<close>

theorem two_page_fetch:
  assumes "fetch srv None = (Inr \<lparr>data = page1, pagination_key = Some key\<rparr>, srv1)"
    and "fetch srv1 (Some key) = (Inr \<lparr>data = page2, pagination_key = None\<rparr>, srv2)"
  shows "fetchAllPages fetch srv
           = Some (Inr (page1 @ page2),
                   [HttpCall None, YieldPage page1, HttpCall (Some key), YieldPage page2])
       \<and> (\<forall>events. fetchAllPages fetch srv = Some (Inr (page1 @ page2), events)
             \<longrightarrow> length (filter is_http_call events) = 2)"
proof -
  have second: "requestPaginated fetch srv1 (Some key) [HttpCall None, YieldPage page1]
                  = Some (srv2, [HttpCall None, YieldPage page1, HttpCall (Some key),
                                 YieldPage page2], None)"
    using assms(2) by (subst requestPaginated.simps) simp
  have "requestPaginated fetch srv None []
          = Some (srv2, [HttpCall None, YieldPage page1, HttpCall (Some key), YieldPage page2],
                  None)"
    using assms(1) second by (subst requestPaginated.simps) simp
  then have run: "fetchAllPages fetch srv
           = Some (Inr (page1 @ page2),
                   [HttpCall None, YieldPage page1, HttpCall (Some key), YieldPage page2])"
    by (simp add: fetchAllPages_def)
  then show ?thesis by simp
qed

theorem two_page_fetch_witness:
  "fetchAllPages scripted_fetch
     [Inr \<lparr>data = [(''1301'', ''2024-01-15'')], pagination_key = Some ''page2''\<rparr>,
      Inr \<lparr>data = [(''1301'', ''2024-01-16'')], pagination_key = None\<rparr>]
   = Some (Inr [(''1301'', ''2024-01-15''), (''1301'', ''2024-01-16'')],
           [HttpCall None, YieldPage [(''1301'', ''2024-01-15'')],
            HttpCall (Some ''page2''), YieldPage [(''1301'', ''2024-01-16'')]])"
proof -
  let ?r1 = "Inr \<lparr>data = [(''1301'', ''2024-01-15'')], pagination_key = Some ''page2''\<rparr>
               :: string + (string \<times> string) api_response"
  let ?r2 = "Inr \<lparr>data = [(''1301'', ''2024-01-16'')], pagination_key = None\<rparr>
               :: string + (string \<times> string) api_response"
  have "scripted_fetch [?r1, ?r2] None
          = (Inr \<lparr>data = [(''1301'', ''2024-01-15'')], pagination_key = Some ''page2''\<rparr>, [?r2])"
    and "scripted_fetch [?r2] (Some ''page2'')
          = (Inr \<lparr>data = [(''1301'', ''2024-01-16'')], pagination_key = None\<rparr>, [])"
    by (simp_all add: scripted_fetch_def)
  from two_page_fetch [OF this] show ?thesis by simp
qed

section \<open>Properties of the job lock\<close>



















lemma same_key_at_most_one:
  assumes "distinct (map f xs)" and "\<forall>x \<in> set xs. f x = k"
  shows "length xs \<le> 1"
proof (cases xs)
  case Nil
  then show ?thesis by simp
next
  case outer: (Cons x ys)
  show ?thesis
  proof (cases ys)
    case Nil
    with outer show ?thesis by simp
  next
    case (Cons y zs)
    with outer assms have "f x = f y" "f x \<noteq> f y" by simp_all
    then show ?thesis by simp
  qed
qed

















end
